theory Spec2Isabelle
  imports Main "HOL-Library.Word"
begin

unbundle bit_operations_syntax

section \<open>Python values, exceptions and effects\<close>

text \<open>
  The two programs, \<^verbatim>\<open>app.py\<close> (the keyring version) and \<^verbatim>\<open>app_V2.py\<close> (the DPAPI
  version), keep one password in memory, optionally persist it, and put it on the system
  clipboard with a timed auto-clear. Everything below is a translation of their methods.
  A Python \<^verbatim>\<open>str\<close> is a \<open>string\<close>, \<^verbatim>\<open>bytes\<close> is a list of 8-bit words, \<^verbatim>\<open>None\<close> is
  \<open>None\<close>. A method is a function from the state (the objects' fields and the environment
  they touch) to a result and the new state; the result is \<open>Inl e\<close> when the method raises
  \<open>e\<close> and \<open>Inr v\<close> when it returns \<open>v\<close>.
\<close>

type_synonym bytes = "8 word list"

datatype exn =
    OSError | FileNotFoundError | JSONDecodeError | AttributeError
  | UnicodeError | RuntimeError | KeyringError

text \<open>What \<^verbatim>\<open>json.load\<close> can return.\<close>

datatype json =
    JNull | JBool bool | JNum int | JStr string
  | JList "json list" | JDict "(string \<times> json) list"

text \<open>
  The credential file \<^verbatim>\<open>cred.json\<close>: text that \<^verbatim>\<open>json.load\<close> parses to a value, or text
  that it rejects (a truncated or overwritten file).
\<close>

datatype file_body = Doc json | Garbage

text \<open>Calls that change the clipboard, in the order they were made.\<close>

datatype cb_call = CbSetText string | CbClear | Win32EmptyClipboard

text \<open>Calls of the two \<^verbatim>\<open>crypt32\<close> primitives, with the data and the \<^verbatim>\<open>dwFlags\<close> passed.\<close>

datatype crypt_call =
    CryptProtectData_call bytes "32 word"
  | CryptUnprotectData_call bytes "32 word"

text \<open>What the user is shown: message boxes and tray notifications, by title.\<close>

datatype ui_event = MessageWarning string | MessageInformation string | TrayMessage string

datatype status_text = StatusNoPassword | StatusStored | StatusStoredSessionOnly

text \<open>A \<^verbatim>\<open>user32\<close> call returns a \<^verbatim>\<open>BOOL\<close> or, through \<^verbatim>\<open>ctypes\<close>, raises.\<close>

datatype native = Returns bool | Throws

text \<open>The outcome of \<^verbatim>\<open>PasswordDialog.exec()\<close> with \<^verbatim>\<open>get_values()\<close>.\<close>

datatype dialog = Rejected | Accepted string bool

text \<open>
  The platform: what is fixed for one run of the program and lies outside the repository.
  The codecs of the Python library return \<open>None\<close> where the library raises; the two DPAPI
  primitives return \<open>None\<close> where the Windows call returns \<^verbatim>\<open>FALSE\<close>. They are parameters:
  \<open>CryptProtectData P\<close> and \<open>CryptUnprotectData P\<close> stand for the primitives under the
  logon session (the encryption context) of platform \<open>P\<close>.
\<close>

record platform =
  is_windows :: bool
  keyring_present :: bool
  utf8_encode :: "string \<Rightarrow> bytes option"
  utf8_decode :: "bytes \<Rightarrow> string option"
  b64encode :: "bytes \<Rightarrow> string"
  b64decode :: "string \<Rightarrow> bytes option"
  CryptProtectData :: "bytes \<Rightarrow> 32 word \<Rightarrow> bytes option"
  CryptUnprotectData :: "bytes \<Rightarrow> 32 word \<Rightarrow> bytes option"

text \<open>
  The state: the fields of \<^verbatim>\<open>PasswordStore\<close> and \<^verbatim>\<open>MainWindow\<close> that the methods read
  and write, the environment (clipboard, credential file, keyring entry), the record of
  what was done to the environment, and the failures that the environment has in stock.
  \<open>clear_timer\<close> is the single-shot \<^verbatim>\<open>QTimer\<close> \<^verbatim>\<open>_clear_timer\<close>: \<open>Some r\<close> when it is active
  with \<open>r\<close> milliseconds left, \<open>None\<close> when it is inactive.
  \<open>chk_auto\<close> and \<open>spin_secs\<close> are the values of the two widgets; the spin box is
  created with the range 3 to 300, which the state does not enforce, since the code itself
  guards with \<^verbatim>\<open>max(1, ...)\<close>.
  \<open>faults\<close> decides the fallible Python-level calls (clipboard, files, keyring) in the
  order they are made: the call raises when the head is \<open>True\<close>; an empty list means that
  nothing fails any more. \<open>user32\<close> does the same for the native clipboard calls.
\<close>

record state =
  in_memory :: "string option"
  last_copied_value :: "string option"
  clear_timer :: "nat option"
  chk_auto :: bool
  spin_secs :: int
  settings_auto_clear :: bool
  settings_auto_clear_secs :: int
  status_lbl :: status_text
  clipboard :: string
  cred_file :: "file_body option"
  keyring_entry :: "string option"
  faults :: "bool list"
  user32 :: "native list"
  cb_calls :: "cb_call list"
  crypt32_calls :: "crypt_call list"
  ui_events :: "ui_event list"

type_synonym 'a py = "state \<Rightarrow> (exn + 'a) \<times> state"

definition py_return :: "'a \<Rightarrow> 'a py" where
  "py_return x = (\<lambda>s. (Inr x, s))"

definition py_raise :: "exn \<Rightarrow> 'a py" where
  "py_raise e = (\<lambda>s. (Inl e, s))"

definition py_bind :: "'a py \<Rightarrow> ('a \<Rightarrow> 'b py) \<Rightarrow> 'b py" where
  "py_bind m f = (\<lambda>s. case m s of (Inl e, s') \<Rightarrow> (Inl e, s') | (Inr x, s') \<Rightarrow> f x s')"

definition py_get :: "(state \<Rightarrow> 'a) \<Rightarrow> 'a py" where
  "py_get f = (\<lambda>s. (Inr (f s), s))"

definition py_modify :: "(state \<Rightarrow> state) \<Rightarrow> unit py" where
  "py_modify f = (\<lambda>s. (Inr (), f s))"

text \<open>\<^verbatim>\<open>try: m except Exception: h\<close>, and \<^verbatim>\<open>try: m finally: f\<close>.\<close>

definition py_try :: "'a py \<Rightarrow> 'a py \<Rightarrow> 'a py" where
  "py_try m h = (\<lambda>s. case m s of (Inl e, s') \<Rightarrow> h s' | (Inr x, s') \<Rightarrow> (Inr x, s'))"

definition py_finally :: "'a py \<Rightarrow> unit py \<Rightarrow> 'a py" where
  "py_finally m f =
     (\<lambda>s. case m s of (r, s') \<Rightarrow>
        (case f s' of (Inl e, s'') \<Rightarrow> (Inl e, s'') | (Inr u, s'') \<Rightarrow> (r, s'')))"

text \<open>
  Two properties of a method, for the proofs: it never raises, and it leaves a component
  of the state as it was, whether it returns or raises.
\<close>

definition returns :: "'a py \<Rightarrow> bool" where
  "returns m = (\<forall>s. \<exists>x s'. m s = (Inr x, s'))"

definition keeps :: "(state \<Rightarrow> 'b) \<Rightarrow> 'a py \<Rightarrow> bool" where
  "keeps f m = (\<forall>s. f (snd (m s)) = f s)"

text \<open>A fallible call of the environment: it raises \<open>e\<close> when the stock says so.\<close>

definition fallible :: "exn \<Rightarrow> unit py" where
  "fallible e =
     (\<lambda>s. case faults s of
        [] \<Rightarrow> (Inr (), s)
      | b # bs \<Rightarrow> (if b then Inl e else Inr (), s\<lparr>faults := bs\<rparr>))"

definition user32_call :: "bool py" where
  "user32_call =
     (\<lambda>s. case user32 s of
        [] \<Rightarrow> (Inr True, s)
      | Returns b # r \<Rightarrow> (Inr b, s\<lparr>user32 := r\<rparr>)
      | Throws # r \<Rightarrow> (Inl OSError, s\<lparr>user32 := r\<rparr>))"

text \<open>Python's truth value of an optional string and of a JSON value.\<close>

definition truthy :: "string option \<Rightarrow> bool" where
  "truthy v = (case v of None \<Rightarrow> False | Some x \<Rightarrow> x \<noteq> [])"

definition truthy_json :: "json \<Rightarrow> bool" where
  "truthy_json j =
     (case j of
        JNull \<Rightarrow> False
      | JBool b \<Rightarrow> b
      | JNum n \<Rightarrow> n \<noteq> 0
      | JStr x \<Rightarrow> x \<noteq> []
      | JList xs \<Rightarrow> xs \<noteq> []
      | JDict kvs \<Rightarrow> kvs \<noteq> [])"

section \<open>The clipboard\<close>

text \<open>\<^verbatim>\<open>QClipboard.text()\<close>, \<^verbatim>\<open>setText(v)\<close> and \<^verbatim>\<open>clear()\<close>.\<close>

definition cb_text :: "string py" where
  "cb_text = py_bind (fallible RuntimeError) (\<lambda>u. py_get clipboard)"

definition cb_setText :: "string \<Rightarrow> unit py" where
  "cb_setText v =
     py_bind (py_modify (\<lambda>s. s\<lparr>cb_calls := cb_calls s @ [CbSetText v]\<rparr>)) (\<lambda>u.
     py_bind (fallible RuntimeError) (\<lambda>u.
     py_modify (\<lambda>s. s\<lparr>clipboard := v\<rparr>)))"

definition cb_clear :: "unit py" where
  "cb_clear =
     py_bind (py_modify (\<lambda>s. s\<lparr>cb_calls := cb_calls s @ [CbClear]\<rparr>)) (\<lambda>u.
     py_bind (fallible RuntimeError) (\<lambda>u.
     py_modify (\<lambda>s. s\<lparr>clipboard := []\<rparr>)))"

text \<open>
  \<^verbatim>\<open>user32.OpenClipboard(0)\<close>, \<^verbatim>\<open>EmptyClipboard()\<close>, \<^verbatim>\<open>CloseClipboard()\<close>: the clipboard is
  emptied when \<^verbatim>\<open>EmptyClipboard\<close> returns \<^verbatim>\<open>TRUE\<close>.
\<close>

definition OpenClipboard :: "bool py" where
  "OpenClipboard = user32_call"

definition EmptyClipboard :: "unit py" where
  "EmptyClipboard =
     py_bind (py_modify (\<lambda>s. s\<lparr>cb_calls := cb_calls s @ [Win32EmptyClipboard]\<rparr>)) (\<lambda>u.
     py_bind user32_call (\<lambda>ok.
     if ok then py_modify (\<lambda>s. s\<lparr>clipboard := []\<rparr>) else py_return ()))"

definition CloseClipboard :: "unit py" where
  "CloseClipboard = py_bind user32_call (\<lambda>b. py_return ())"

text \<open>
  \<^verbatim>\<open>win_clear_clipboard\<close>: \<^verbatim>\<open>False\<close> off Windows; on Windows the three calls inside
  \<^verbatim>\<open>try\<close>, \<^verbatim>\<open>True\<close> when the clipboard could be opened, \<^verbatim>\<open>False\<close> when it could not or
  when a call raised. The two files differ only in where they look up \<^verbatim>\<open>windll\<close>
  (\<^verbatim>\<open>app.py\<close> imports it once and falls back to the constant \<^verbatim>\<open>False\<close> when the import
  fails, which is the outcome of a raising call here).
\<close>

definition win_clear_clipboard :: "platform \<Rightarrow> bool py" where
  "win_clear_clipboard P =
     (if \<not> is_windows P then py_return False
      else py_try
             (py_bind OpenClipboard (\<lambda>opened.
                if opened
                then py_bind EmptyClipboard (\<lambda>u. py_bind CloseClipboard (\<lambda>u. py_return True))
                else py_return False))
             (py_return False))"

definition tray_showMessage :: "string \<Rightarrow> unit py" where
  "tray_showMessage title = py_modify (\<lambda>s. s\<lparr>ui_events := ui_events s @ [TrayMessage title]\<rparr>)"

definition QMessageBox_warning :: "string \<Rightarrow> unit py" where
  "QMessageBox_warning title =
     py_modify (\<lambda>s. s\<lparr>ui_events := ui_events s @ [MessageWarning title]\<rparr>)"

definition QMessageBox_information :: "string \<Rightarrow> unit py" where
  "QMessageBox_information title =
     py_modify (\<lambda>s. s\<lparr>ui_events := ui_events s @ [MessageInformation title]\<rparr>)"

text \<open>
  \<^verbatim>\<open>MainWindow._maybe_clear_clipboard\<close> (the same in both files), the slot of the timer's
  \<^verbatim>\<open>timeout\<close> signal. The \<^verbatim>\<open>return\<close> of the first test leaves through \<^verbatim>\<open>finally\<close> as well.
\<close>

definition maybe_clear_clipboard :: "platform \<Rightarrow> unit py" where
  "maybe_clear_clipboard P =
     py_finally
       (py_try
          (py_bind (py_get last_copied_value) (\<lambda>last.
             case last of
               None \<Rightarrow> py_return ()
             | Some v \<Rightarrow>
                 py_bind cb_text (\<lambda>t.
                   if t = v
                   then py_bind cb_clear (\<lambda>u.
                        py_bind (cb_setText []) (\<lambda>u.
                        py_bind cb_clear (\<lambda>u.
                        py_bind (win_clear_clipboard P) (\<lambda>b.
                        tray_showMessage ''Clipboard cleared''))))
                   else py_return ())))
          (py_return ()))
       (py_modify (\<lambda>s. s\<lparr>last_copied_value := None\<rparr>))"

text \<open>
  The end of \<^verbatim>\<open>MainWindow.copy_password\<close> (the same in both files), from
  \<^verbatim>\<open>cb = QApplication.clipboard()\<close> on: the password \<open>pw\<close> goes to the clipboard, is kept as
  \<^verbatim>\<open>_last_copied_value\<close>, and the timer is started from the widgets \<^verbatim>\<open>chk_auto\<close> and
  \<^verbatim>\<open>spin_secs\<close>. \<^verbatim>\<open>QTimer.start(msec)\<close> starts the timer, or restarts it when it is running.
\<close>

definition QTimer_start :: "nat \<Rightarrow> unit py" where
  "QTimer_start msec = py_modify (\<lambda>s. s\<lparr>clear_timer := Some msec\<rparr>)"

definition copy_to_clipboard :: "string \<Rightarrow> unit py" where
  "copy_to_clipboard pw =
     py_bind (cb_setText pw) (\<lambda>u.
     py_bind (py_modify (\<lambda>s. s\<lparr>last_copied_value := Some pw\<rparr>)) (\<lambda>u.
     py_bind (tray_showMessage ''Copied'') (\<lambda>u.
     py_bind (py_get chk_auto) (\<lambda>checked.
       if checked
       then py_bind (py_get spin_secs) (\<lambda>v. QTimer_start (nat (max 1 v) * 1000))
       else py_return ()))))"

text \<open>
  The event loop lets \<open>d\<close> milliseconds pass: an active timer with at most \<open>d\<close> milliseconds
  left times out, which deactivates it (it is single-shot) and runs its slot.
\<close>

definition elapse :: "platform \<Rightarrow> nat \<Rightarrow> unit py" where
  "elapse P d =
     py_bind (py_get clear_timer) (\<lambda>t.
     case t of
       None \<Rightarrow> py_return ()
     | Some r \<Rightarrow>
         if d < r then py_modify (\<lambda>s. s\<lparr>clear_timer := Some (r - d)\<rparr>)
         else py_bind (py_modify (\<lambda>s. s\<lparr>clear_timer := None\<rparr>)) (\<lambda>u.
              maybe_clear_clipboard P))"

section \<open>The credential store of \<^verbatim>\<open>app_V2.py\<close>\<close>

definition CRYPTPROTECT_UI_FORBIDDEN :: "32 word" where
  "CRYPTPROTECT_UI_FORBIDDEN = 0x01"

definition USERNAME_LABEL :: string where
  "USERNAME_LABEL = ''default''"

text \<open>
  A run of one of the two DPAPI helpers: what it returns or raises, and the \<^verbatim>\<open>crypt32\<close>
  calls it made. \<open>crypt32\<close> is such a run inside a method: the calls go to the record.
\<close>

type_synonym 'a dpapi_run = "(exn + 'a) \<times> crypt_call list"

definition crypt32 :: "'a dpapi_run \<Rightarrow> 'a py" where
  "crypt32 r = (\<lambda>s. (fst r, s\<lparr>crypt32_calls := crypt32_calls s @ snd r\<rparr>))"

text \<open>
  \<^verbatim>\<open>dpapi_encrypt\<close>. On Windows: UTF-8, \<^verbatim>\<open>CryptProtectData\<close> with
  \<^verbatim>\<open>CRYPTPROTECT_UI_FORBIDDEN\<close> as \<^verbatim>\<open>dwFlags\<close>, \<^verbatim>\<open>OSError\<close> when it returns \<^verbatim>\<open>FALSE\<close>, then
  base64. Elsewhere: UTF-8 and base64 only.
\<close>

definition dpapi_encrypt :: "platform \<Rightarrow> string \<Rightarrow> string dpapi_run" where
  "dpapi_encrypt P plaintext =
     (if is_windows P
      then (case utf8_encode P plaintext of
              None \<Rightarrow> (Inl UnicodeError, [])
            | Some raw \<Rightarrow>
                (case CryptProtectData P raw CRYPTPROTECT_UI_FORBIDDEN of
                   None \<Rightarrow> Inl OSError
                 | Some enc \<Rightarrow> Inr (b64encode P enc),
                 [CryptProtectData_call raw CRYPTPROTECT_UI_FORBIDDEN]))
      else (case utf8_encode P plaintext of
              None \<Rightarrow> (Inl UnicodeError, [])
            | Some raw \<Rightarrow> (Inr (b64encode P raw), [])))"

text \<open>
  \<^verbatim>\<open>dpapi_decrypt\<close>. Its argument is whatever the credential file holds under
  \<^verbatim>\<open>"dpapi"\<close>; \<^verbatim>\<open>base64.b64decode\<close> raises on anything but a string, which the
  \<^verbatim>\<open>except\<close> turns into \<^verbatim>\<open>None\<close>. On Windows \<^verbatim>\<open>CryptUnprotectData\<close> is called with
  \<^verbatim>\<open>dwFlags = 0\<close>.
\<close>

definition dpapi_decrypt :: "platform \<Rightarrow> json \<Rightarrow> string option dpapi_run" where
  "dpapi_decrypt P b64 =
     (if is_windows P
      then (case b64 of
              JStr t \<Rightarrow>
                (case b64decode P t of
                   None \<Rightarrow> (Inr None, [])
                 | Some enc \<Rightarrow>
                     (case CryptUnprotectData P enc 0 of
                        None \<Rightarrow> Inr None
                      | Some dec \<Rightarrow> Inr (utf8_decode P dec),
                      [CryptUnprotectData_call enc 0]))
            | _ \<Rightarrow> (Inr None, []))
      else (case b64 of
              JStr t \<Rightarrow>
                (case b64decode P t of
                   None \<Rightarrow> (Inr None, [])
                 | Some raw \<Rightarrow> (Inr (utf8_decode P raw), []))
            | _ \<Rightarrow> (Inr None, [])))"

text \<open>\<^verbatim>\<open>with open(CRED_PATH, "r") as f: data = json.load(f)\<close>.\<close>

definition read_cred_file :: "json py" where
  "read_cred_file =
     py_bind (fallible OSError) (\<lambda>u.
     py_bind (py_get cred_file) (\<lambda>f.
     case f of
       None \<Rightarrow> py_raise FileNotFoundError
     | Some Garbage \<Rightarrow> py_raise JSONDecodeError
     | Some (Doc data) \<Rightarrow> py_return data))"

text \<open>\<^verbatim>\<open>data.get(k)\<close>: the value, \<^verbatim>\<open>None\<close> for a missing key, \<^verbatim>\<open>AttributeError\<close> off a dict.\<close>

definition dict_get :: "json \<Rightarrow> string \<Rightarrow> json py" where
  "dict_get data k =
     (case data of
        JDict kvs \<Rightarrow> py_return (case map_of kvs k of None \<Rightarrow> JNull | Some v \<Rightarrow> v)
      | _ \<Rightarrow> py_raise AttributeError)"

text \<open>
  \<^verbatim>\<open>ensure_dir(DATA_DIR)\<close>, and
  \<^verbatim>\<open>with open(CRED_PATH, "w") as f: json.dump(data, f)\<close>: when \<^verbatim>\<open>open\<close> raises the file is
  as before, when \<^verbatim>\<open>json.dump\<close> raises the file is left truncated.
\<close>

definition ensure_dir :: "unit py" where
  "ensure_dir = fallible OSError"

definition write_cred_file :: "json \<Rightarrow> unit py" where
  "write_cred_file data =
     py_bind (fallible OSError) (\<lambda>u.
     py_bind (py_modify (\<lambda>s. s\<lparr>cred_file := Some Garbage\<rparr>)) (\<lambda>u.
     py_bind (fallible OSError) (\<lambda>u.
     py_modify (\<lambda>s. s\<lparr>cred_file := Some (Doc data)\<rparr>))))"

text \<open>\<^verbatim>\<open>PasswordStore.get\<close> of \<^verbatim>\<open>app_V2.py\<close>.\<close>

definition get_v2 :: "platform \<Rightarrow> string option py" where
  "get_v2 P =
     py_bind (py_get in_memory) (\<lambda>cached.
     if truthy cached then py_return cached
     else py_try
            (py_bind read_cred_file (\<lambda>data.
             py_bind (dict_get data ''dpapi'') (\<lambda>v.
             let enc = (if truthy_json v then v else JStr []) in
             if \<not> truthy_json enc then py_return None
             else py_bind (crypt32 (dpapi_decrypt P enc)) (\<lambda>pw.
                  if truthy pw
                  then py_bind (py_modify (\<lambda>s. s\<lparr>in_memory := pw\<rparr>)) (\<lambda>u. py_return pw)
                  else py_return None))))
            (py_return None))"

text \<open>
  \<^verbatim>\<open>PasswordStore.set\<close> of \<^verbatim>\<open>app_V2.py\<close>; \<open>cred_record enc\<close> is the dictionary
  \<^verbatim>\<open>{"label": self.label, "dpapi": enc}\<close> that it dumps, the label being that of the one
  store the program creates.
\<close>

definition cred_record :: "string \<Rightarrow> json" where
  "cred_record enc = JDict [(''label'', JStr USERNAME_LABEL), (''dpapi'', JStr enc)]"

definition set_v2 :: "platform \<Rightarrow> string \<Rightarrow> bool \<Rightarrow> unit py" where
  "set_v2 P password remember_device =
     py_bind (py_modify (\<lambda>s. s\<lparr>in_memory := Some password\<rparr>)) (\<lambda>u.
     if remember_device
     then py_try
            (py_bind ensure_dir (\<lambda>u.
             py_bind (crypt32 (dpapi_encrypt P password)) (\<lambda>enc.
             write_cred_file (cred_record enc))))
            (py_return ())
     else py_return ())"



section \<open>The credential store of \<^verbatim>\<open>app.py\<close>\<close>

text \<open>
  \<^verbatim>\<open>keyring.get_password\<close>, \<^verbatim>\<open>set_password\<close> and \<^verbatim>\<open>delete_password\<close> for the one service
  and account of the program; deleting an entry that is not there raises.
\<close>

definition keyring_get_password :: "string option py" where
  "keyring_get_password = py_bind (fallible KeyringError) (\<lambda>u. py_get keyring_entry)"

definition keyring_set_password :: "string \<Rightarrow> unit py" where
  "keyring_set_password pw =
     py_bind (fallible KeyringError) (\<lambda>u. py_modify (\<lambda>s. s\<lparr>keyring_entry := Some pw\<rparr>))"

definition keyring_delete_password :: "unit py" where
  "keyring_delete_password =
     py_bind (fallible KeyringError) (\<lambda>u.
     py_bind (py_get keyring_entry) (\<lambda>e.
     if e = None then py_raise KeyringError
     else py_modify (\<lambda>s. s\<lparr>keyring_entry := None\<rparr>)))"

text \<open>\<^verbatim>\<open>PasswordStore.get\<close>, \<^verbatim>\<open>set\<close> and \<^verbatim>\<open>clear_device_store\<close> of \<^verbatim>\<open>app.py\<close>.\<close>

definition get_v1 :: "platform \<Rightarrow> string option py" where
  "get_v1 P =
     py_bind (py_get in_memory) (\<lambda>cached.
     if truthy cached then py_return cached
     else if keyring_present P
     then py_try
            (py_bind keyring_get_password (\<lambda>pw.
             if truthy pw
             then py_bind (py_modify (\<lambda>s. s\<lparr>in_memory := pw\<rparr>)) (\<lambda>u. py_return pw)
             else py_return None))
            (py_return None)
     else py_return None)"

definition set_v1 :: "platform \<Rightarrow> string \<Rightarrow> bool \<Rightarrow> unit py" where
  "set_v1 P password remember_device =
     py_bind (py_modify (\<lambda>s. s\<lparr>in_memory := Some password\<rparr>)) (\<lambda>u.
     if remember_device \<and> keyring_present P
     then py_try (keyring_set_password password) (py_return ())
     else py_return ())"

definition clear_device_store_v1 :: "platform \<Rightarrow> unit py" where
  "clear_device_store_v1 P =
     (if keyring_present P
      then py_try keyring_delete_password (py_return ())
      else py_return ())"

section \<open>The actions of the main window\<close>

definition refresh_status_v2 :: "platform \<Rightarrow> unit py" where
  "refresh_status_v2 P =
     py_bind (get_v2 P) (\<lambda>r.
     py_modify (\<lambda>s. s\<lparr>status_lbl := (if r \<noteq> None then StatusStored else StatusNoPassword)\<rparr>))"

definition refresh_status_v1 :: "platform \<Rightarrow> unit py" where
  "refresh_status_v1 P =
     py_bind (get_v1 P) (\<lambda>r.
     py_modify (\<lambda>s. s\<lparr>status_lbl :=
       (if r \<noteq> None
        then (if keyring_present P then StatusStored else StatusStoredSessionOnly)
        else StatusNoPassword)\<rparr>))"

text \<open>
  \<^verbatim>\<open>MainWindow.change_password\<close>, given what the dialog returned. In \<^verbatim>\<open>app_V2.py\<close> a
  request to remember is dropped off Windows; in \<^verbatim>\<open>app.py\<close> the keyring entry is deleted
  first when the password is not to be remembered.
\<close>

definition change_password_v2 :: "platform \<Rightarrow> dialog \<Rightarrow> unit py" where
  "change_password_v2 P dlg =
     (case dlg of
        Rejected \<Rightarrow> py_return ()
      | Accepted pw remember \<Rightarrow>
          if pw = [] then QMessageBox_warning ''Password required''
          else py_bind
                 (if \<not> is_windows P \<and> remember
                  then py_bind (QMessageBox_information ''Note'') (\<lambda>u. py_return False)
                  else py_return remember) (\<lambda>remember'.
               py_bind (set_v2 P pw remember') (\<lambda>u.
               py_bind (refresh_status_v2 P) (\<lambda>u.
               tray_showMessage ''Saved''))))"

definition change_password_v1 :: "platform \<Rightarrow> dialog \<Rightarrow> unit py" where
  "change_password_v1 P dlg =
     (case dlg of
        Rejected \<Rightarrow> py_return ()
      | Accepted pw remember \<Rightarrow>
          if pw = [] then QMessageBox_warning ''Password required''
          else py_bind
                 (if \<not> remember \<and> keyring_present P
                  then clear_device_store_v1 P else py_return ()) (\<lambda>u.
               py_bind (set_v1 P pw remember) (\<lambda>u.
               py_bind (refresh_status_v1 P) (\<lambda>u.
               tray_showMessage ''Saved''))))"






section \<open>A concrete platform and concrete states\<close>

text \<open>
  The theorems below hold for every platform. To run the methods on actual values, here is
  one: base64 as in RFC 4648 (strict: Python's decoder also skips characters outside the
  alphabet), UTF-8 for the code points below 256 that a \<open>char\<close> can hold, and a stand-in
  for DPAPI that masks the data with a key of the logon session and prefixes the key, so
  that data protected under one key is refused under another.
\<close>

definition b64_alphabet :: string where
  "b64_alphabet = ''ABCDEFGHIJKLMNOPQRSTUVWXYZabcdefghijklmnopqrstuvwxyz0123456789+/''"

definition b64_char :: "nat \<Rightarrow> char" where
  "b64_char n = b64_alphabet ! (n mod 64)"

fun b64_groups :: "nat list \<Rightarrow> string" where
  "b64_groups (a # b # c # r) =
     [b64_char (a div 4), b64_char ((a mod 4) * 16 + b div 16),
      b64_char ((b mod 16) * 4 + c div 64), b64_char (c mod 64)] @ b64_groups r"
| "b64_groups [a, b] =
     [b64_char (a div 4), b64_char ((a mod 4) * 16 + b div 16),
      b64_char ((b mod 16) * 4), CHR ''='']"
| "b64_groups [a] = [b64_char (a div 4), b64_char ((a mod 4) * 16), CHR ''='', CHR ''='']"
| "b64_groups [] = []"

fun b64_index_in :: "string \<Rightarrow> char \<Rightarrow> nat option" where
  "b64_index_in [] c = None"
| "b64_index_in (x # xs) c = (if x = c then Some 0 else map_option Suc (b64_index_in xs c))"

definition b64_index :: "char \<Rightarrow> nat option" where
  "b64_index c = b64_index_in b64_alphabet c"

fun b64_ungroups :: "string \<Rightarrow> nat list option" where
  "b64_ungroups [] = Some []"
| "b64_ungroups [a, b, c, d] =
     (case (b64_index a, b64_index b, b64_index c, b64_index d) of
        (Some x, Some y, Some z, Some w) \<Rightarrow>
          Some [x * 4 + y div 16, (y mod 16) * 16 + z div 4, (z mod 4) * 64 + w]
      | (Some x, Some y, Some z, None) \<Rightarrow>
          (if d = CHR ''='' then Some [x * 4 + y div 16, (y mod 16) * 16 + z div 4] else None)
      | (Some x, Some y, None, None) \<Rightarrow>
          (if c = CHR ''='' \<and> d = CHR ''='' then Some [x * 4 + y div 16] else None)
      | _ \<Rightarrow> None)"
| "b64_ungroups (a # b # c # d # r) =
     (case (b64_index a, b64_index b, b64_index c, b64_index d) of
        (Some x, Some y, Some z, Some w) \<Rightarrow>
          map_option
            (\<lambda>bs. [x * 4 + y div 16, (y mod 16) * 16 + z div 4, (z mod 4) * 64 + w] @ bs)
            (b64_ungroups r)
      | _ \<Rightarrow> None)"
| "b64_ungroups _ = None"

definition demo_b64encode :: "bytes \<Rightarrow> string" where
  "demo_b64encode bs = b64_groups (map unat bs)"

definition demo_b64decode :: "string \<Rightarrow> bytes option" where
  "demo_b64decode t = map_option (map of_nat) (b64_ungroups t)"

definition demo_utf8_encode :: "string \<Rightarrow> bytes option" where
  "demo_utf8_encode t =
     Some (concat (map (\<lambda>c. let n = of_char c :: nat in
                         if n < 128 then [of_nat n]
                         else [of_nat (192 + n div 64), of_nat (128 + n mod 64)]) t))"

fun utf8_chars :: "nat list \<Rightarrow> string option" where
  "utf8_chars [] = Some []"
| "utf8_chars (a # r) =
     (if a < 128 then map_option (\<lambda>t. char_of a # t) (utf8_chars r)
      else (case r of
              b # r' \<Rightarrow>
                if (a = 194 \<or> a = 195) \<and> 128 \<le> b \<and> b < 192
                then map_option (\<lambda>t. char_of ((a - 192) * 64 + (b - 128)) # t) (utf8_chars r')
                else None
            | [] \<Rightarrow> None))"

definition demo_utf8_decode :: "bytes \<Rightarrow> string option" where
  "demo_utf8_decode bs = utf8_chars (map unat bs)"

definition demo_protect :: "8 word \<Rightarrow> bytes \<Rightarrow> 32 word \<Rightarrow> bytes option" where
  "demo_protect key raw flags = Some (key # map (\<lambda>b. b XOR key) raw)"

definition demo_unprotect :: "8 word \<Rightarrow> bytes \<Rightarrow> 32 word \<Rightarrow> bytes option" where
  "demo_unprotect key enc flags =
     (case enc of
        [] \<Rightarrow> None
      | k # r \<Rightarrow> if k = key then Some (map (\<lambda>b. b XOR key) r) else None)"

text \<open>A Windows logon session with the given key, and a machine without Windows.\<close>

definition demo_windows :: "8 word \<Rightarrow> platform" where
  "demo_windows key =
     \<lparr>is_windows = True, keyring_present = True,
      utf8_encode = demo_utf8_encode, utf8_decode = demo_utf8_decode,
      b64encode = demo_b64encode, b64decode = demo_b64decode,
      CryptProtectData = demo_protect key, CryptUnprotectData = demo_unprotect key\<rparr>"

definition demo_posix :: platform where
  "demo_posix =
     \<lparr>is_windows = False, keyring_present = True,
      utf8_encode = demo_utf8_encode, utf8_decode = demo_utf8_decode,
      b64encode = demo_b64encode, b64decode = demo_b64decode,
      CryptProtectData = (\<lambda>raw flags. None), CryptUnprotectData = (\<lambda>enc flags. None)\<rparr>"

text \<open>
  The state after \<^verbatim>\<open>MainWindow.__init__\<close> on a machine with no settings file, no stored
  password and an empty clipboard: the defaults of \<^verbatim>\<open>Settings\<close> are in the widgets.
\<close>

definition startup :: state where
  "startup =
     \<lparr>in_memory = None, last_copied_value = None, clear_timer = None,
      chk_auto = True, spin_secs = 20,
      settings_auto_clear = True, settings_auto_clear_secs = 20,
      status_lbl = StatusNoPassword,
      clipboard = [], cred_file = None, keyring_entry = None,
      faults = [], user32 = [], cb_calls = [], crypt32_calls = [], ui_events = []\<rparr>"

text \<open>
  The state after the password \<^verbatim>\<open>P@ss1\<close> was copied with the spin box at 3 seconds.
\<close>

definition copied_demo :: state where
  "copied_demo = snd (copy_to_clipboard ''P@ss1'' (startup\<lparr>spin_secs := 3\<rparr>))"

text \<open>
  Two copies in a row: \<^verbatim>\<open>A\<close> with the spin box at 10 seconds and, half a second later,
  \<^verbatim>\<open>B\<close> with the spin box at 1 second.
\<close>

definition copied_A :: state where
  "copied_A = snd (copy_to_clipboard ''A'' (startup\<lparr>chk_auto := True, spin_secs := 10\<rparr>))"

definition copied_B :: state where
  "copied_B =
     snd (copy_to_clipboard ''B''
            ((snd (elapse (demo_windows 90) 500 copied_A))\<lparr>spin_secs := 1\<rparr>))"

text \<open>
  The machine with the credential file that \<^verbatim>\<open>set("P@ss1", True)\<close> writes in the Windows
  session with key 90, and the same with the stored text altered.
\<close>

definition remembered_demo :: state where
  "remembered_demo = startup\<lparr>cred_file := Some (Doc (cred_record ''WgoaKSlr''))\<rparr>"

definition tampered_demo :: state where
  "tampered_demo = startup\<lparr>cred_file := Some (Doc (cred_record ''Wgoa*SlrX''))\<rparr>"

section \<open>Basic facts\<close>

lemmas py_defs =
  py_return_def py_raise_def py_bind_def py_get_def py_modify_def py_try_def py_finally_def


lemma fallible_quiet:
  "True \<notin> set (faults s) \<Longrightarrow> fallible e s = (Inr (), s\<lparr>faults := tl (faults s)\<rparr>)"
  by (cases "faults s") (auto simp: fallible_def)

lemma fallible_run:
  "fallible e s =
     (if take 1 (faults s) = [True] then Inl e else Inr (), s\<lparr>faults := tl (faults s)\<rparr>)"
  by (cases "faults s") (auto simp: fallible_def)

lemma keepsD: "keeps f m \<Longrightarrow> m s = (r, s') \<Longrightarrow> f s' = f s"
  unfolding keeps_def by (metis snd_conv)

lemma keepsI: "(\<And>s r s'. m s = (r, s') \<Longrightarrow> f s' = f s) \<Longrightarrow> keeps f m"
  unfolding keeps_def by (metis surjective_pairing)

lemma keeps_return: "keeps f (py_return x)"
  by (simp add: keeps_def py_defs)

lemma keeps_raise: "keeps f (py_raise e)"
  by (simp add: keeps_def py_defs)

lemma keeps_get: "keeps f (py_get g)"
  by (simp add: keeps_def py_defs)

lemma keeps_modify: "(\<And>s. f (u s) = f s) \<Longrightarrow> keeps f (py_modify u)"
  by (simp add: keeps_def py_defs)

lemma keeps_bind:
  assumes "keeps f m" and "\<And>x. keeps f (g x)"
  shows "keeps f (py_bind m g)"
proof (rule keepsI)
  fix s r s'
  assume run: "py_bind m g s = (r, s')"
  obtain r1 s1 where m: "m s = (r1, s1)" by (cases "m s")
  have s1: "f s1 = f s" using assms(1) m by (rule keepsD)
  show "f s' = f s"
  proof (cases r1)
    case (Inl e)
    with run m have "s' = s1" by (simp add: py_bind_def)
    with s1 show ?thesis by simp
  next
    case (Inr x)
    with run m have "g x s1 = (r, s')" by (simp add: py_bind_def)
    with assms(2) have "f s' = f s1" by (rule keepsD)
    with s1 show ?thesis by simp
  qed
qed

lemma keeps_try:
  assumes "keeps f m" and "keeps f h"
  shows "keeps f (py_try m h)"
proof (rule keepsI)
  fix s r s'
  assume run: "py_try m h s = (r, s')"
  obtain r1 s1 where m: "m s = (r1, s1)" by (cases "m s")
  have s1: "f s1 = f s" using assms(1) m by (rule keepsD)
  show "f s' = f s"
  proof (cases r1)
    case (Inl e)
    with run m have "h s1 = (r, s')" by (simp add: py_try_def)
    with assms(2) have "f s' = f s1" by (rule keepsD)
    with s1 show ?thesis by simp
  next
    case (Inr x)
    with run m have "s' = s1" by (simp add: py_try_def)
    with s1 show ?thesis by simp
  qed
qed

lemma keeps_finally:
  assumes "keeps f m" and "keeps f h"
  shows "keeps f (py_finally m h)"
proof (rule keepsI)
  fix s r s'
  assume run: "py_finally m h s = (r, s')"
  obtain r1 s1 where m: "m s = (r1, s1)" by (cases "m s")
  obtain r2 s2 where h: "h s1 = (r2, s2)" by (cases "h s1")
  have "f s1 = f s" using assms(1) m by (rule keepsD)
  moreover have "f s2 = f s1" using assms(2) h by (rule keepsD)
  moreover have "s' = s2" using run m h by (cases r2) (simp_all add: py_finally_def)
  ultimately show "f s' = f s" by simp
qed

lemma keeps_fallible: "(\<And>s x. f (s\<lparr>faults := x\<rparr>) = f s) \<Longrightarrow> keeps f (fallible e)"
  by (simp add: keeps_def fallible_def split: list.splits)

lemma keeps_user32_call: "(\<And>s x. f (s\<lparr>user32 := x\<rparr>) = f s) \<Longrightarrow> keeps f user32_call"
  by (simp add: keeps_def user32_call_def split: list.splits native.splits)

lemmas keeps_intros = keeps_return keeps_raise keeps_get keeps_modify keeps_bind keeps_try
  keeps_finally keeps_fallible keeps_user32_call

lemma returnsD: "returns m \<Longrightarrow> \<exists>x s'. m s = (Inr x, s')"
  unfolding returns_def by blast

lemma returns_return: "returns (py_return x)"
  by (simp add: returns_def py_defs)

lemma returns_get: "returns (py_get g)"
  by (simp add: returns_def py_defs)

lemma returns_modify: "returns (py_modify u)"
  by (simp add: returns_def py_defs)

lemma returns_bind:
  assumes "returns m" and "\<And>x. returns (g x)"
  shows "returns (py_bind m g)"
  unfolding returns_def
proof
  fix s
  obtain x s1 where "m s = (Inr x, s1)" using returnsD [OF assms(1)] by blast
  moreover obtain y s2 where "g x s1 = (Inr y, s2)" using returnsD [OF assms(2)] by blast
  ultimately have "py_bind m g s = (Inr y, s2)" by (simp add: py_bind_def)
  then show "\<exists>y s'. py_bind m g s = (Inr y, s')" by blast
qed

lemma returns_try:
  assumes "returns h"
  shows "returns (py_try m h)"
  unfolding returns_def
proof
  fix s
  obtain r1 s1 where m: "m s = (r1, s1)" by (cases "m s")
  obtain y s2 where h: "h s1 = (Inr y, s2)" using returnsD [OF assms] by blast
  show "\<exists>y s'. py_try m h s = (Inr y, s')"
    using m h by (cases r1) (simp_all add: py_try_def)
qed

lemma returns_finally:
  assumes "returns m" and "returns h"
  shows "returns (py_finally m h)"
  unfolding returns_def
proof
  fix s
  obtain x s1 where "m s = (Inr x, s1)" using returnsD [OF assms(1)] by blast
  moreover obtain y s2 where "h s1 = (Inr y, s2)" using returnsD [OF assms(2)] by blast
  ultimately have "py_finally m h s = (Inr x, s2)" by (simp add: py_finally_def)
  then show "\<exists>y s'. py_finally m h s = (Inr y, s')" by blast
qed

lemmas returns_intros =
  returns_return returns_get returns_modify returns_bind returns_try returns_finally

lemma py_finally_modify:
  assumes "py_finally m (py_modify u) s = (r, s')"
  shows "\<exists>s1. m s = (r, s1) \<and> s' = u s1"
  using assms by (cases "m s") (simp add: py_finally_def py_modify_def)

section \<open>The timer and its slot\<close>

lemma keeps_win_clear_clipboard_timer: "keeps clear_timer (win_clear_clipboard P)"
  unfolding win_clear_clipboard_def OpenClipboard_def EmptyClipboard_def CloseClipboard_def
  by (auto intro!: keeps_intros)

lemma keeps_maybe_clear_clipboard_timer: "keeps clear_timer (maybe_clear_clipboard P)"
  unfolding maybe_clear_clipboard_def cb_text_def cb_clear_def cb_setText_def tray_showMessage_def
  by (auto intro!: keeps_intros keeps_win_clear_clipboard_timer split: option.splits)

lemma returns_maybe_clear_clipboard: "returns (maybe_clear_clipboard P)"
  unfolding maybe_clear_clipboard_def by (intro returns_intros)

lemma maybe_clear_clipboard_resets:
  assumes "maybe_clear_clipboard P s = (r, s')"
  shows "r = Inr () \<and> last_copied_value s' = None \<and> clear_timer s' = clear_timer s"
proof -
  have "r = Inr ()"
    using returnsD [OF returns_maybe_clear_clipboard, of P s] assms by auto
  moreover have "last_copied_value s' = None"
    using py_finally_modify [OF assms [unfolded maybe_clear_clipboard_def]] by auto
  moreover have "clear_timer s' = clear_timer s"
    using keepsD [OF keeps_maybe_clear_clipboard_timer assms] .
  ultimately show ?thesis by simp
qed

lemma elapse_inactive: "clear_timer s = None \<Longrightarrow> elapse P d s = (Inr (), s)"
  by (simp add: elapse_def py_defs)

lemma elapse_waiting:
  "clear_timer s = Some t \<Longrightarrow> d < t \<Longrightarrow> elapse P d s = (Inr (), s\<lparr>clear_timer := Some (t - d)\<rparr>)"
  by (simp add: elapse_def py_defs)

lemma elapse_fires:
  "clear_timer s = Some t \<Longrightarrow> t \<le> d \<Longrightarrow>
   elapse P d s = maybe_clear_clipboard P (s\<lparr>clear_timer := None\<rparr>)"
  by (simp add: elapse_def py_defs)

lemma copied_demo_eq:
  "copied_demo =
     startup\<lparr>spin_secs := 3, cb_calls := [CbSetText ''P@ss1''], clipboard := ''P@ss1'',
             last_copied_value := Some ''P@ss1'', ui_events := [TrayMessage ''Copied''],
             clear_timer := Some 3000\<rparr>"
  by (simp add: copied_demo_def copy_to_clipboard_def cb_setText_def tray_showMessage_def
      QTimer_start_def fallible_def startup_def py_defs)

lemma keeps_win_clear_clipboard:
  assumes "\<And>s x. f (s\<lparr>user32 := x\<rparr>) = f s"
      and "\<And>s x. f (s\<lparr>clipboard := x\<rparr>) = f s"
      and "\<And>s x. f (s\<lparr>cb_calls := x\<rparr>) = f s"
  shows "keeps f (win_clear_clipboard P)"
  unfolding win_clear_clipboard_def OpenClipboard_def EmptyClipboard_def CloseClipboard_def
  by (auto intro!: keeps_intros simp: assms)

lemma no_raise_4:
  "True \<notin> set (take 4 xs) \<longleftrightarrow>
     take 1 xs \<noteq> [True] \<and> take 1 (tl xs) \<noteq> [True] \<and> take 1 (tl (tl xs)) \<noteq> [True] \<and>
     take 1 (tl (tl (tl xs))) \<noteq> [True]"
proof (cases xs)
  case Nil
  then show ?thesis by simp
next
  case a: (Cons a as)
  show ?thesis
  proof (cases as)
    case Nil
    with a show ?thesis by auto
  next
    case b: (Cons b bs)
    show ?thesis
    proof (cases bs)
      case Nil
      with a b show ?thesis by auto
    next
      case c: (Cons c cs)
      show ?thesis
      proof (cases cs)
        case Nil
        with a b c show ?thesis by auto
      next
        case (Cons d ds)
        with a b c show ?thesis by (auto simp: numeral_eq_Suc)
      qed
    qed
  qed
qed

lemma OpenClipboard_user32:
  "user32 s = user32 t \<Longrightarrow> fst (OpenClipboard s) = fst (OpenClipboard t)"
  by (simp add: OpenClipboard_def user32_call_def split: list.splits native.splits)

lemma win_clear_clipboard_effect:
  assumes "win_clear_clipboard P s = (r, s')"
  shows "(clipboard s' = [] \<or> clipboard s' = clipboard s) \<and>
         cb_calls s' = cb_calls s @
           (if is_windows P \<and> fst (OpenClipboard s) = Inr True then [Win32EmptyClipboard]
            else [])"
  using assms
  by (auto simp: win_clear_clipboard_def OpenClipboard_def EmptyClipboard_def CloseClipboard_def
      user32_call_def py_defs split: list.splits native.splits if_splits)

lemma returns_win_clear_clipboard: "returns (win_clear_clipboard P)"
  unfolding win_clear_clipboard_def by (auto intro!: returns_intros)

lemma maybe_clear_clipboard_own:
  assumes armed: "last_copied_value s = Some v"
      and own: "clipboard s = v"
      and quiet: "True \<notin> set (take 4 (faults s))"
      and run: "maybe_clear_clipboard P s = (r, s')"
  shows "r = Inr () \<and> clipboard s' = [] \<and>
         ui_events s' = ui_events s @ [TrayMessage ''Clipboard cleared''] \<and>
         cb_calls s' = cb_calls s @ [CbClear, CbSetText [], CbClear] @
           (if is_windows P \<and> fst (OpenClipboard s) = Inr True then [Win32EmptyClipboard]
            else [])"
proof -
  define s4 where
    "s4 = s\<lparr>cb_calls := cb_calls s @ [CbClear, CbSetText [], CbClear],
             faults := tl (tl (tl (tl (faults s)))), clipboard := []\<rparr>"
  obtain b s5 where w: "win_clear_clipboard P s4 = (Inr b, s5)"
    using returnsD [OF returns_win_clear_clipboard] by blast
  have ui: "ui_events s5 = ui_events s4"
    by (rule keepsD [OF keeps_win_clear_clipboard w]) simp_all
  have "user32 s4 = user32 s" by (simp add: s4_def)
  then have op: "fst (OpenClipboard s4) = fst (OpenClipboard s)"
    by (rule OpenClipboard_user32)
  have eff: "clipboard s5 = []"
    "cb_calls s5 = cb_calls s4 @
       (if is_windows P \<and> fst (OpenClipboard s) = Inr True then [Win32EmptyClipboard] else [])"
    using win_clear_clipboard_effect [OF w] op by (auto simp: s4_def)
  have q: "take 1 (faults s) \<noteq> [True]" "take 1 (tl (faults s)) \<noteq> [True]"
    "take 1 (tl (tl (faults s))) \<noteq> [True]" "take 1 (tl (tl (tl (faults s)))) \<noteq> [True]"
    using quiet unfolding no_raise_4 by simp_all
  have "maybe_clear_clipboard P s =
          (Inr (), s5\<lparr>ui_events := ui_events s5 @ [TrayMessage ''Clipboard cleared''],
                      last_copied_value := None\<rparr>)"
    using armed own q w
    by (simp add: maybe_clear_clipboard_def cb_text_def cb_clear_def cb_setText_def
        tray_showMessage_def py_defs fallible_run s4_def)
  with run have "r = Inr ()" and
    "s' = s5\<lparr>ui_events := ui_events s5 @ [TrayMessage ''Clipboard cleared''],
              last_copied_value := None\<rparr>" by simp_all
  with ui eff show ?thesis by (auto simp: s4_def)
qed


lemma raise_4_cases:
  assumes "True \<in> set (take 4 xs)"
  obtains r where "xs = True # r"
  | r where "xs = False # True # r"
  | r where "xs = False # False # True # r"
  | r where "xs = False # False # False # True # r"
proof (cases xs)
  case Nil
  with assms show ?thesis by simp
next
  case a: (Cons a as)
  show ?thesis
  proof (cases a)
    case True
    with a that(1) show ?thesis by simp
  next
    case fa: False
    show ?thesis
    proof (cases as)
      case Nil
      with assms a fa show ?thesis by simp
    next
      case b: (Cons b bs)
      show ?thesis
      proof (cases b)
        case True
        with a fa b that(2) show ?thesis by simp
      next
        case fb: False
        show ?thesis
        proof (cases bs)
          case Nil
          with assms a fa b fb show ?thesis by simp
        next
          case c: (Cons c cs)
          show ?thesis
          proof (cases c)
            case True
            with a fa b fb c that(3) show ?thesis by simp
          next
            case fc: False
            show ?thesis
            proof (cases cs)
              case Nil
              with assms a fa b fb c fc show ?thesis by simp
            next
              case d: (Cons d ds)
              with assms a fa b fb c fc have "d" by (simp add: numeral_eq_Suc)
              with a fa b fb c fc d that(4) show ?thesis by simp
            qed
          qed
        qed
      qed
    qed
  qed
qed

lemma maybe_clear_clipboard_raising:
  assumes armed: "last_copied_value s = Some v"
      and own: "clipboard s = v"
      and raising: "True \<in> set (take 4 (faults s))"
      and run: "maybe_clear_clipboard P s = (r, s')"
  shows "r = Inr () \<and> ui_events s' = ui_events s \<and>
         cb_calls s' =
           cb_calls s @ take (length (takeWhile Not (faults s))) [CbClear, CbSetText [], CbClear] \<and>
         clipboard s' = (if 2 \<le> length (takeWhile Not (faults s)) then [] else v)"
  using raising
proof (cases rule: raise_4_cases)
  case 1
  with armed own run show ?thesis
    by (auto simp: maybe_clear_clipboard_def cb_text_def fallible_def py_defs)
next
  case 2
  with armed own run show ?thesis
    by (auto simp: maybe_clear_clipboard_def cb_text_def cb_clear_def fallible_def py_defs)
next
  case 3
  with armed own run show ?thesis
    by (auto simp: maybe_clear_clipboard_def cb_text_def cb_clear_def cb_setText_def
        fallible_def py_defs)
next
  case 4
  with armed own run show ?thesis
    by (auto simp: maybe_clear_clipboard_def cb_text_def cb_clear_def cb_setText_def
        fallible_def py_defs)
qed

lemma maybe_clear_clipboard_foreign:
  assumes "last_copied_value s = Some v" and "clipboard s \<noteq> v"
  shows "maybe_clear_clipboard P s =
           (Inr (), s\<lparr>last_copied_value := None, faults := tl (faults s)\<rparr>)"
  using assms
  by (cases "faults s") (simp_all add: maybe_clear_clipboard_def cb_text_def fallible_def py_defs)

text \<open>
  C1. When the slot runs with a value in \<^verbatim>\<open>_last_copied_value\<close>, it returns without an
  exception, and:

    \<^item> if the clipboard holds that value and none of the four clipboard calls of the slot
      (\<^verbatim>\<open>text\<close>, \<^verbatim>\<open>clear\<close>, \<^verbatim>\<open>setText("")\<close>, \<^verbatim>\<open>clear\<close>) raises, the calls made are exactly
      \<^verbatim>\<open>clear\<close>, \<^verbatim>\<open>setText("")\<close>, \<^verbatim>\<open>clear\<close> and, on Windows when \<^verbatim>\<open>OpenClipboard\<close> returned
      true, the native \<^verbatim>\<open>EmptyClipboard\<close>; the clipboard is empty and the tray shows
      "Clipboard cleared", whatever the native calls return or raise;

    \<^item> if the clipboard holds that value and one of the four calls raises, the exception is
      swallowed and the rest of the slot is skipped: only the calls up to the raising one
      were made, the native flush is not called and nothing is shown; the clipboard is
      empty only when the first \<^verbatim>\<open>clear\<close> had returned;

    \<^item> if the clipboard holds anything else, no call that changes the clipboard is made, its
      content stays, and nothing is shown.
\<close>

theorem auto_clear_only_own_value:
  assumes "last_copied_value s = Some v" and "maybe_clear_clipboard P s = (r, s')"
  shows "r = Inr () \<and>
         (clipboard s = v \<and> True \<notin> set (take 4 (faults s)) \<longrightarrow>
            clipboard s' = [] \<and>
            ui_events s' = ui_events s @ [TrayMessage ''Clipboard cleared''] \<and>
            cb_calls s' = cb_calls s @ [CbClear, CbSetText [], CbClear] @
              (if is_windows P \<and> fst (OpenClipboard s) = Inr True then [Win32EmptyClipboard]
               else [])) \<and>
         (clipboard s = v \<and> True \<in> set (take 4 (faults s)) \<longrightarrow>
            ui_events s' = ui_events s \<and>
            cb_calls s' =
              cb_calls s @
              take (length (takeWhile Not (faults s))) [CbClear, CbSetText [], CbClear] \<and>
            clipboard s' = (if 2 \<le> length (takeWhile Not (faults s)) then [] else v)) \<and>
         (clipboard s \<noteq> v \<longrightarrow>
            clipboard s' = clipboard s \<and> cb_calls s' = cb_calls s \<and>
            ui_events s' = ui_events s)"
proof -
  have "r = Inr ()"
    using returnsD [OF returns_maybe_clear_clipboard, of P s] assms(2) by auto
  moreover have "clipboard s' = [] \<and>
      ui_events s' = ui_events s @ [TrayMessage ''Clipboard cleared''] \<and>
      cb_calls s' = cb_calls s @ [CbClear, CbSetText [], CbClear] @
        (if is_windows P \<and> fst (OpenClipboard s) = Inr True then [Win32EmptyClipboard]
         else [])"
    if "clipboard s = v" "True \<notin> set (take 4 (faults s))"
    using maybe_clear_clipboard_own [OF assms(1) that assms(2)] by simp
  moreover have "ui_events s' = ui_events s \<and>
      cb_calls s' =
        cb_calls s @ take (length (takeWhile Not (faults s))) [CbClear, CbSetText [], CbClear] \<and>
      clipboard s' = (if 2 \<le> length (takeWhile Not (faults s)) then [] else v)"
    if "clipboard s = v" "True \<in> set (take 4 (faults s))"
    using maybe_clear_clipboard_raising [OF assms(1) that assms(2)] by simp
  moreover have "clipboard s' = clipboard s \<and> cb_calls s' = cb_calls s \<and>
      ui_events s' = ui_events s"
    if "clipboard s \<noteq> v"
    using maybe_clear_clipboard_foreign [OF assms(1) that, of P] assms(2) by auto
  ultimately show ?thesis by blast
qed

theorem auto_clear_only_own_value_witness:
  "last_copied_value copied_demo = Some ''P@ss1'' \<and> clipboard copied_demo = ''P@ss1'' \<and>
   fst (maybe_clear_clipboard (demo_windows 90) copied_demo) = Inr () \<and>
   clipboard (snd (maybe_clear_clipboard (demo_windows 90) copied_demo)) = [] \<and>
   ui_events (snd (maybe_clear_clipboard (demo_windows 90) copied_demo)) =
     [TrayMessage ''Copied'', TrayMessage ''Clipboard cleared''] \<and>
   cb_calls (snd (maybe_clear_clipboard (demo_windows 90) copied_demo)) =
     [CbSetText ''P@ss1'', CbClear, CbSetText [], CbClear, Win32EmptyClipboard] \<and>
   ui_events (snd (maybe_clear_clipboard (demo_windows 90)
     (copied_demo\<lparr>user32 := [Returns False]\<rparr>))) =
     [TrayMessage ''Copied'', TrayMessage ''Clipboard cleared''] \<and>
   cb_calls (snd (maybe_clear_clipboard (demo_windows 90)
     (copied_demo\<lparr>user32 := [Returns False]\<rparr>))) =
     [CbSetText ''P@ss1'', CbClear, CbSetText [], CbClear] \<and>
   cb_calls (snd (maybe_clear_clipboard demo_posix copied_demo)) =
     [CbSetText ''P@ss1'', CbClear, CbSetText [], CbClear] \<and>
   fst (maybe_clear_clipboard (demo_windows 90)
     (copied_demo\<lparr>faults := [False, False, True]\<rparr>)) = Inr () \<and>
   clipboard (snd (maybe_clear_clipboard (demo_windows 90)
     (copied_demo\<lparr>faults := [False, False, True]\<rparr>))) = [] \<and>
   ui_events (snd (maybe_clear_clipboard (demo_windows 90)
     (copied_demo\<lparr>faults := [False, False, True]\<rparr>))) = [TrayMessage ''Copied''] \<and>
   cb_calls (snd (maybe_clear_clipboard (demo_windows 90)
     (copied_demo\<lparr>faults := [False, False, True]\<rparr>))) =
     [CbSetText ''P@ss1'', CbClear, CbSetText []] \<and>
   clipboard (copied_demo\<lparr>clipboard := ''other''\<rparr>) \<noteq> ''P@ss1'' \<and>
   clipboard (snd (maybe_clear_clipboard (demo_windows 90)
     (copied_demo\<lparr>clipboard := ''other''\<rparr>))) = ''other'' \<and>
   cb_calls (snd (maybe_clear_clipboard (demo_windows 90)
     (copied_demo\<lparr>clipboard := ''other''\<rparr>))) = [CbSetText ''P@ss1''] \<and>
   ui_events (snd (maybe_clear_clipboard (demo_windows 90)
     (copied_demo\<lparr>clipboard := ''other''\<rparr>))) = [TrayMessage ''Copied'']"
proof -
  have a: "last_copied_value copied_demo = Some ''P@ss1''"
    and b: "last_copied_value (copied_demo\<lparr>clipboard := ''other''\<rparr>) = Some ''P@ss1''"
    and c: "last_copied_value (copied_demo\<lparr>user32 := [Returns False]\<rparr>) = Some ''P@ss1''"
    and d: "last_copied_value (copied_demo\<lparr>faults := [False, False, True]\<rparr>) = Some ''P@ss1''"
    by (simp_all add: copied_demo_eq startup_def)
  have e: "clipboard copied_demo = ''P@ss1''" "faults copied_demo = []"
      "user32 copied_demo = []" "cb_calls copied_demo = [CbSetText ''P@ss1'']"
      "ui_events copied_demo = [TrayMessage ''Copied'']"
    by (simp_all add: copied_demo_eq startup_def)
  have w: "is_windows (demo_windows 90)" "\<not> is_windows demo_posix"
    by (simp_all add: demo_windows_def demo_posix_def)
  note slot = auto_clear_only_own_value [OF _ surjective_pairing]
  have 1: "fst (maybe_clear_clipboard (demo_windows 90) copied_demo) = Inr () \<and>
     clipboard (snd (maybe_clear_clipboard (demo_windows 90) copied_demo)) = [] \<and>
     ui_events (snd (maybe_clear_clipboard (demo_windows 90) copied_demo)) =
       [TrayMessage ''Copied'', TrayMessage ''Clipboard cleared''] \<and>
     cb_calls (snd (maybe_clear_clipboard (demo_windows 90) copied_demo)) =
       [CbSetText ''P@ss1'', CbClear, CbSetText [], CbClear, Win32EmptyClipboard]"
    using slot [OF a, of "demo_windows 90"] e w
    by (simp add: OpenClipboard_def user32_call_def)
  have 2: "ui_events (snd (maybe_clear_clipboard (demo_windows 90)
       (copied_demo\<lparr>user32 := [Returns False]\<rparr>))) =
       [TrayMessage ''Copied'', TrayMessage ''Clipboard cleared''] \<and>
     cb_calls (snd (maybe_clear_clipboard (demo_windows 90)
       (copied_demo\<lparr>user32 := [Returns False]\<rparr>))) =
       [CbSetText ''P@ss1'', CbClear, CbSetText [], CbClear]"
    using slot [OF c, of "demo_windows 90"] e w
    by (simp add: OpenClipboard_def user32_call_def)
  have 3: "cb_calls (snd (maybe_clear_clipboard demo_posix copied_demo)) =
       [CbSetText ''P@ss1'', CbClear, CbSetText [], CbClear]"
    using slot [OF a, of demo_posix] e w by simp
  have 4: "fst (maybe_clear_clipboard (demo_windows 90)
       (copied_demo\<lparr>faults := [False, False, True]\<rparr>)) = Inr () \<and>
     clipboard (snd (maybe_clear_clipboard (demo_windows 90)
       (copied_demo\<lparr>faults := [False, False, True]\<rparr>))) = [] \<and>
     ui_events (snd (maybe_clear_clipboard (demo_windows 90)
       (copied_demo\<lparr>faults := [False, False, True]\<rparr>))) = [TrayMessage ''Copied''] \<and>
     cb_calls (snd (maybe_clear_clipboard (demo_windows 90)
       (copied_demo\<lparr>faults := [False, False, True]\<rparr>))) =
       [CbSetText ''P@ss1'', CbClear, CbSetText []]"
    using slot [OF d, of "demo_windows 90"] e by (simp add: numeral_eq_Suc)
  have 5: "clipboard (copied_demo\<lparr>clipboard := ''other''\<rparr>) \<noteq> ''P@ss1'' \<and>
     clipboard (snd (maybe_clear_clipboard (demo_windows 90)
       (copied_demo\<lparr>clipboard := ''other''\<rparr>))) = ''other'' \<and>
     cb_calls (snd (maybe_clear_clipboard (demo_windows 90)
       (copied_demo\<lparr>clipboard := ''other''\<rparr>))) = [CbSetText ''P@ss1''] \<and>
     ui_events (snd (maybe_clear_clipboard (demo_windows 90)
       (copied_demo\<lparr>clipboard := ''other''\<rparr>))) = [TrayMessage ''Copied'']"
    using slot [OF b, of "demo_windows 90"] e by simp
  show ?thesis
    using a e(1) 1 2 3 4 5 by (intro conjI) simp_all
qed

text \<open>
  C1 as the specification states it, with the clear and the signal following from the
  clipboard holding the copied value alone, fails when a clipboard call raises: here the
  first \<^verbatim>\<open>clear\<close> raises, the slot returns, the password is still in the clipboard and
  nothing is shown.
\<close>

theorem auto_clear_skipped_on_clipboard_error:
  "last_copied_value (copied_demo\<lparr>faults := [False, True]\<rparr>) = Some ''P@ss1'' \<and>
   clipboard (copied_demo\<lparr>faults := [False, True]\<rparr>) = ''P@ss1'' \<and>
   fst (maybe_clear_clipboard (demo_windows 90) (copied_demo\<lparr>faults := [False, True]\<rparr>)) =
     Inr () \<and>
   clipboard (snd (maybe_clear_clipboard (demo_windows 90)
     (copied_demo\<lparr>faults := [False, True]\<rparr>))) = ''P@ss1'' \<and>
   cb_calls (snd (maybe_clear_clipboard (demo_windows 90)
     (copied_demo\<lparr>faults := [False, True]\<rparr>))) = [CbSetText ''P@ss1'', CbClear] \<and>
   ui_events (snd (maybe_clear_clipboard (demo_windows 90)
     (copied_demo\<lparr>faults := [False, True]\<rparr>))) = [TrayMessage ''Copied'']"
  by (simp add: copied_demo_eq startup_def maybe_clear_clipboard_def cb_text_def cb_clear_def
      fallible_def py_defs)

text \<open>
  C7. When the timer of the clipboard auto-clear times out, its slot returns without an
  exception, \<^verbatim>\<open>_last_copied_value\<close> is \<^verbatim>\<open>None\<close> and the timer is inactive afterwards,
  whatever the clipboard held and whichever clipboard call failed; from then on the
  passing of time runs nothing, so the slot is not run a second time for that copy.
\<close>

theorem timer_firing_resets_snapshot:
  assumes "clear_timer s = Some t" and "t \<le> d" and "elapse P d s = (r, s')"
  shows "elapse P d s = maybe_clear_clipboard P (s\<lparr>clear_timer := None\<rparr>) \<and>
         r = Inr () \<and> last_copied_value s' = None \<and> clear_timer s' = None \<and>
         (\<forall>d'. elapse P d' s' = (Inr (), s'))"
proof -
  have fires: "elapse P d s = maybe_clear_clipboard P (s\<lparr>clear_timer := None\<rparr>)"
    using assms(1,2) by (rule elapse_fires)
  then have run: "maybe_clear_clipboard P (s\<lparr>clear_timer := None\<rparr>) = (r, s')"
    using assms(3) by simp
  from maybe_clear_clipboard_resets [OF run]
  have *: "r = Inr ()" "last_copied_value s' = None" "clear_timer s' = None" by simp_all
  then have "\<forall>d'. elapse P d' s' = (Inr (), s')" by (simp add: elapse_inactive)
  with fires * show ?thesis by simp
qed

text \<open>
  The three outcomes on the state after a copy: the clipboard still holds the password, it
  holds something else, and the clipboard cannot be read.
\<close>

theorem timer_firing_resets_snapshot_witness:
  "clear_timer copied_demo = Some 3000 \<and>
   fst (elapse (demo_windows 90) 3000 copied_demo) = Inr () \<and>
   last_copied_value (snd (elapse (demo_windows 90) 3000 copied_demo)) = None \<and>
   clear_timer (snd (elapse (demo_windows 90) 3000 copied_demo)) = None \<and>
   last_copied_value
     (snd (elapse (demo_windows 90) 3000 (copied_demo\<lparr>clipboard := ''other''\<rparr>))) = None \<and>
   clear_timer
     (snd (elapse (demo_windows 90) 3000 (copied_demo\<lparr>clipboard := ''other''\<rparr>))) = None \<and>
   fst (elapse (demo_windows 90) 3000 (copied_demo\<lparr>faults := [True]\<rparr>)) = Inr () \<and>
   last_copied_value
     (snd (elapse (demo_windows 90) 3000 (copied_demo\<lparr>faults := [True]\<rparr>))) = None \<and>
   clear_timer
     (snd (elapse (demo_windows 90) 3000 (copied_demo\<lparr>faults := [True]\<rparr>))) = None"
proof -
  have a: "clear_timer copied_demo = Some 3000"
    and b: "clear_timer (copied_demo\<lparr>clipboard := ''other''\<rparr>) = Some 3000"
    and c: "clear_timer (copied_demo\<lparr>faults := [True]\<rparr>) = Some 3000"
    by (simp_all add: copied_demo_eq)
  note fired =
    timer_firing_resets_snapshot [where P = "demo_windows 90" and d = 3000,
      OF _ order_refl surjective_pairing]
  show ?thesis
    using a fired [OF a] fired [OF b] fired [OF c] by blast
qed

section \<open>Copying\<close>

lemma copy_to_clipboard_returns:
  assumes "take 1 (faults s) \<noteq> [True]"
  shows "copy_to_clipboard pw s =
           (Inr (), s\<lparr>cb_calls := cb_calls s @ [CbSetText pw], faults := tl (faults s),
                      clipboard := pw, last_copied_value := Some pw,
                      ui_events := ui_events s @ [TrayMessage ''Copied''],
                      clear_timer := (if chk_auto s then Some (nat (max 1 (spin_secs s)) * 1000)
                                      else clear_timer s)\<rparr>)"
  using assms
  by (cases "faults s")
     (simp_all add: copy_to_clipboard_def cb_setText_def tray_showMessage_def QTimer_start_def
        fallible_def py_defs)

lemma copy_to_clipboard_raises:
  assumes "take 1 (faults s) = [True]"
  shows "copy_to_clipboard pw s =
           (Inl RuntimeError, s\<lparr>cb_calls := cb_calls s @ [CbSetText pw], faults := tl (faults s)\<rparr>)"
  using assms
  by (cases "faults s")
     (simp_all add: copy_to_clipboard_def cb_setText_def tray_showMessage_def QTimer_start_def
        fallible_def py_defs)

text \<open>
  C6, as the code has it. A copy always calls \<^verbatim>\<open>setText\<close> with the password. When that
  call returns, the clipboard holds the password and \<^verbatim>\<open>_last_copied_value\<close> is set to it,
  whether or not the auto-clear box is checked; only the start (or restart) of the timer
  depends on the box, with \<^verbatim>\<open>max(1, spin_secs)\<close> seconds, both read from the widgets at the
  time of the call. The saved \<^verbatim>\<open>Settings\<close> are not read: with other saved values the call
  does the same. When \<^verbatim>\<open>setText\<close> raises, the exception leaves the method and neither the
  snapshot nor the timer is touched.
\<close>

theorem copy_records_snapshot_always:
  assumes "copy_to_clipboard pw s = (r, s')"
  shows "cb_calls s' = cb_calls s @ [CbSetText pw] \<and>
         (r = Inr () \<or> r = Inl RuntimeError) \<and>
         (r = Inr () \<longrightarrow>
            clipboard s' = pw \<and> last_copied_value s' = Some pw \<and>
            clear_timer s' =
              (if chk_auto s then Some (nat (max 1 (spin_secs s)) * 1000) else clear_timer s)) \<and>
         (r \<noteq> Inr () \<longrightarrow>
            clipboard s' = clipboard s \<and> last_copied_value s' = last_copied_value s \<and>
            clear_timer s' = clear_timer s) \<and>
         copy_to_clipboard pw (s\<lparr>settings_auto_clear := a, settings_auto_clear_secs := n\<rparr>) =
           (r, s'\<lparr>settings_auto_clear := a, settings_auto_clear_secs := n\<rparr>)"
proof (cases "take 1 (faults s) = [True]")
  case True
  from copy_to_clipboard_raises [OF True, of pw]
    copy_to_clipboard_raises [of "s\<lparr>settings_auto_clear := a, settings_auto_clear_secs := n\<rparr>" pw]
    True assms
  show ?thesis by auto
next
  case False
  from copy_to_clipboard_returns [OF False, of pw]
    copy_to_clipboard_returns [of "s\<lparr>settings_auto_clear := a, settings_auto_clear_secs := n\<rparr>" pw]
    False assms
  show ?thesis by auto
qed

theorem copy_records_snapshot_always_witness:
  "fst (copy_to_clipboard ''P@ss1'' (startup\<lparr>spin_secs := 3\<rparr>)) = Inr () \<and>
   clipboard copied_demo = ''P@ss1'' \<and> last_copied_value copied_demo = Some ''P@ss1'' \<and>
   clear_timer copied_demo = Some 3000 \<and> cb_calls copied_demo = [CbSetText ''P@ss1''] \<and>
   fst (copy_to_clipboard ''P@ss1'' (startup\<lparr>faults := [True]\<rparr>)) \<noteq> Inr () \<and>
   last_copied_value (snd (copy_to_clipboard ''P@ss1'' (startup\<lparr>faults := [True]\<rparr>))) = None \<and>
   clear_timer (snd (copy_to_clipboard ''P@ss1'' (startup\<lparr>faults := [True]\<rparr>))) = None"
proof -
  have ok: "fst (copy_to_clipboard ''P@ss1'' (startup\<lparr>spin_secs := 3\<rparr>)) = Inr ()"
    and bad: "fst (copy_to_clipboard ''P@ss1'' (startup\<lparr>faults := [True]\<rparr>)) \<noteq> Inr ()"
    by (simp_all add: copy_to_clipboard_returns copy_to_clipboard_raises startup_def)
  have widgets: "chk_auto (startup\<lparr>spin_secs := 3\<rparr>)" "spin_secs (startup\<lparr>spin_secs := 3\<rparr>) = 3"
    "cb_calls (startup\<lparr>spin_secs := 3\<rparr>) = []"
    "last_copied_value (startup\<lparr>faults := [True]\<rparr>) = None"
    "clear_timer (startup\<lparr>faults := [True]\<rparr>) = None"
    by (simp_all add: startup_def)
  note copy = copy_records_snapshot_always [OF surjective_pairing]
  note good = copy [of "''P@ss1''" "startup\<lparr>spin_secs := 3\<rparr>"]
  note fail = copy [of "''P@ss1''" "startup\<lparr>faults := [True]\<rparr>"]
  have "clipboard copied_demo = ''P@ss1'' \<and> last_copied_value copied_demo = Some ''P@ss1'' \<and>
        clear_timer copied_demo = Some 3000"
    unfolding copied_demo_def
    using good [THEN conjunct2, THEN conjunct2, THEN conjunct1] ok widgets by simp
  moreover have "cb_calls copied_demo = [CbSetText ''P@ss1'']"
    unfolding copied_demo_def using good [THEN conjunct1] widgets by simp
  moreover have
    "last_copied_value (snd (copy_to_clipboard ''P@ss1'' (startup\<lparr>faults := [True]\<rparr>))) = None \<and>
     clear_timer (snd (copy_to_clipboard ''P@ss1'' (startup\<lparr>faults := [True]\<rparr>))) = None"
    using fail [THEN conjunct2, THEN conjunct2, THEN conjunct2, THEN conjunct1] bad widgets
    by simp
  ultimately show ?thesis using ok bad by simp
qed

text \<open>
  C6 as the specification states it fails: with the box unchecked the copy still records
  the snapshot (and starts no timer).
\<close>

theorem copy_snapshot_without_auto_clear:
  "\<not> chk_auto (startup\<lparr>chk_auto := False\<rparr>) \<and>
   last_copied_value (startup\<lparr>chk_auto := False\<rparr>) = None \<and>
   fst (copy_to_clipboard ''P@ss1'' (startup\<lparr>chk_auto := False\<rparr>)) = Inr () \<and>
   last_copied_value (snd (copy_to_clipboard ''P@ss1'' (startup\<lparr>chk_auto := False\<rparr>))) =
     Some ''P@ss1'' \<and>
   clear_timer (snd (copy_to_clipboard ''P@ss1'' (startup\<lparr>chk_auto := False\<rparr>))) = None"
  by (simp add: copy_to_clipboard_returns startup_def)


section \<open>Copying again before the timer has fired\<close>

text \<open>
  C5. A copy of \<open>a\<close> with \<open>ta\<close> seconds is followed, before its timer has fired, by a copy
  of \<open>b\<close> with \<open>tb\<close> seconds (the claim has 10 and 1). There is one timer: after the
  second copy it has \<open>tb\<close> seconds left and the snapshot is \<open>b\<close>; the time left from the
  first copy is gone. Before \<open>tb\<close> seconds nothing runs. Then the slot runs once, against
  \<open>b\<close>: a clipboard that holds anything else, \<open>a\<close> included, is left alone. After that
  the timer is inactive and the snapshot empty, so nothing runs at any later time, the first
  copy's deadline included.
\<close>

theorem rearm_supersedes:
  assumes ta: "1 \<le> ta" and tb: "1 \<le> tb"
      and c1: "copy_to_clipboard a (s0\<lparr>chk_auto := True, spin_secs := ta\<rparr>) = (Inr (), s1)"
      and d: "d < nat ta * 1000"
      and c2: "copy_to_clipboard b ((snd (elapse P d s1))\<lparr>spin_secs := tb\<rparr>) = (Inr (), s3)"
  shows "last_copied_value s1 = Some a \<and> clear_timer s1 = Some (nat ta * 1000) \<and>
         elapse P d s1 = (Inr (), s1\<lparr>clear_timer := Some (nat ta * 1000 - d)\<rparr>) \<and>
         last_copied_value s3 = Some b \<and> clear_timer s3 = Some (nat tb * 1000) \<and>
         (\<forall>e c. e < nat tb * 1000 \<longrightarrow>
            elapse P e (s3\<lparr>clipboard := c\<rparr>) =
              (Inr (), s3\<lparr>clipboard := c, clear_timer := Some (nat tb * 1000 - e)\<rparr>)) \<and>
         (\<forall>e c. nat tb * 1000 \<le> e \<longrightarrow>
            elapse P e (s3\<lparr>clipboard := c\<rparr>) =
              maybe_clear_clipboard P (s3\<lparr>clipboard := c, clear_timer := None\<rparr>)) \<and>
         (\<forall>e c. nat tb * 1000 \<le> e \<and> c \<noteq> b \<longrightarrow>
            clipboard (snd (elapse P e (s3\<lparr>clipboard := c\<rparr>))) = c \<and>
            cb_calls (snd (elapse P e (s3\<lparr>clipboard := c\<rparr>))) = cb_calls s3) \<and>
         (\<forall>e c e'. nat tb * 1000 \<le> e \<longrightarrow>
            last_copied_value (snd (elapse P e (s3\<lparr>clipboard := c\<rparr>))) = None \<and>
            clear_timer (snd (elapse P e (s3\<lparr>clipboard := c\<rparr>))) = None \<and>
            elapse P e' (snd (elapse P e (s3\<lparr>clipboard := c\<rparr>))) =
              (Inr (), snd (elapse P e (s3\<lparr>clipboard := c\<rparr>))))"
proof -
  let ?s0 = "s0\<lparr>chk_auto := True, spin_secs := ta\<rparr>"
  have q1: "take 1 (faults ?s0) \<noteq> [True]"
    using c1 copy_to_clipboard_raises [of ?s0 a] by auto
  note s1 = c1 [unfolded copy_to_clipboard_returns [OF q1], simplified]
  have s1_timer: "clear_timer s1 = Some (nat ta * 1000)" and s1_last: "last_copied_value s1 = Some a"
    and s1_auto: "chk_auto s1"
    using s1 ta by (auto simp: max_def)
  have wait: "elapse P d s1 = (Inr (), s1\<lparr>clear_timer := Some (nat ta * 1000 - d)\<rparr>)"
    using s1_timer d by (rule elapse_waiting)
  let ?s2 = "s1\<lparr>clear_timer := Some (nat ta * 1000 - d), spin_secs := tb\<rparr>"
  have c2': "copy_to_clipboard b ?s2 = (Inr (), s3)"
    using c2 wait by simp
  have q2: "take 1 (faults ?s2) \<noteq> [True]"
    using c2' copy_to_clipboard_raises [of ?s2 b] by auto
  note s3 = c2' [unfolded copy_to_clipboard_returns [OF q2], simplified]
  have s3_timer: "clear_timer s3 = Some (nat tb * 1000)" and s3_last: "last_copied_value s3 = Some b"
    using s3 tb s1_auto by (auto simp: max_def)
  have before: "elapse P e (s3\<lparr>clipboard := c\<rparr>) =
              (Inr (), s3\<lparr>clipboard := c, clear_timer := Some (nat tb * 1000 - e)\<rparr>)"
    if "e < nat tb * 1000" for e c
    using elapse_waiting [of "s3\<lparr>clipboard := c\<rparr>" "nat tb * 1000" e P] s3_timer that by simp
  have fire: "elapse P e (s3\<lparr>clipboard := c\<rparr>) =
              maybe_clear_clipboard P (s3\<lparr>clipboard := c, clear_timer := None\<rparr>)"
    if "nat tb * 1000 \<le> e" for e c
    using elapse_fires [of "s3\<lparr>clipboard := c\<rparr>" "nat tb * 1000" e P] s3_timer that by simp
  have foreign: "clipboard (snd (elapse P e (s3\<lparr>clipboard := c\<rparr>))) = c \<and>
            cb_calls (snd (elapse P e (s3\<lparr>clipboard := c\<rparr>))) = cb_calls s3"
    if "nat tb * 1000 \<le> e" "c \<noteq> b" for e c
    using fire [OF that(1), of c] that(2) s3_last
      maybe_clear_clipboard_foreign [of "s3\<lparr>clipboard := c, clear_timer := None\<rparr>" b P]
    by simp
  have after: "last_copied_value (snd (elapse P e (s3\<lparr>clipboard := c\<rparr>))) = None \<and>
            clear_timer (snd (elapse P e (s3\<lparr>clipboard := c\<rparr>))) = None \<and>
            elapse P e' (snd (elapse P e (s3\<lparr>clipboard := c\<rparr>))) =
              (Inr (), snd (elapse P e (s3\<lparr>clipboard := c\<rparr>)))"
    if "nat tb * 1000 \<le> e" for e c e'
  proof -
    have "maybe_clear_clipboard P (s3\<lparr>clipboard := c, clear_timer := None\<rparr>) =
            (fst (elapse P e (s3\<lparr>clipboard := c\<rparr>)), snd (elapse P e (s3\<lparr>clipboard := c\<rparr>)))"
      using fire [OF that, of c] by simp
    from maybe_clear_clipboard_resets [OF this]
    show ?thesis by (simp add: elapse_inactive)
  qed
  have B: "\<forall>e c. e < nat tb * 1000 \<longrightarrow>
            elapse P e (s3\<lparr>clipboard := c\<rparr>) =
              (Inr (), s3\<lparr>clipboard := c, clear_timer := Some (nat tb * 1000 - e)\<rparr>)"
    using before by blast
  have C: "\<forall>e c. nat tb * 1000 \<le> e \<longrightarrow>
            elapse P e (s3\<lparr>clipboard := c\<rparr>) =
              maybe_clear_clipboard P (s3\<lparr>clipboard := c, clear_timer := None\<rparr>)"
    using fire by blast
  have D: "\<forall>e c. nat tb * 1000 \<le> e \<and> c \<noteq> b \<longrightarrow>
            clipboard (snd (elapse P e (s3\<lparr>clipboard := c\<rparr>))) = c \<and>
            cb_calls (snd (elapse P e (s3\<lparr>clipboard := c\<rparr>))) = cb_calls s3"
    using foreign by blast
  have E: "\<forall>e c e'. nat tb * 1000 \<le> e \<longrightarrow>
            last_copied_value (snd (elapse P e (s3\<lparr>clipboard := c\<rparr>))) = None \<and>
            clear_timer (snd (elapse P e (s3\<lparr>clipboard := c\<rparr>))) = None \<and>
            elapse P e' (snd (elapse P e (s3\<lparr>clipboard := c\<rparr>))) =
              (Inr (), snd (elapse P e (s3\<lparr>clipboard := c\<rparr>)))"
    using after by blast
  show ?thesis
    by (intro conjI s1_last s1_timer wait s3_last s3_timer B C D E)
qed

lemma copied_A_eq:
  "copy_to_clipboard ''A'' (startup\<lparr>chk_auto := True, spin_secs := 10\<rparr>) = (Inr (), copied_A)"
  by (simp add: copied_A_def copy_to_clipboard_returns startup_def)

lemma copied_B_eq:
  "copy_to_clipboard ''B'' ((snd (elapse (demo_windows 90) 500 copied_A))\<lparr>spin_secs := 1\<rparr>) =
     (Inr (), copied_B)"
proof -
  have "clear_timer copied_A = Some 10000" "faults copied_A = []"
    by (simp_all add: copied_A_def copy_to_clipboard_returns startup_def)
  then show ?thesis
    by (simp add: copied_B_def elapse_waiting [of copied_A 10000] copy_to_clipboard_returns)
qed

theorem rearm_supersedes_witness:
  "fst (copy_to_clipboard ''A'' (startup\<lparr>chk_auto := True, spin_secs := 10\<rparr>)) = Inr () \<and>
   clear_timer copied_A = Some 10000 \<and> last_copied_value copied_A = Some ''A'' \<and>
   clear_timer copied_B = Some 1000 \<and> last_copied_value copied_B = Some ''B'' \<and>
   clipboard (snd (elapse (demo_windows 90) 1000 (copied_B\<lparr>clipboard := ''A''\<rparr>))) = ''A'' \<and>
   clear_timer (snd (elapse (demo_windows 90) 1000 (copied_B\<lparr>clipboard := ''A''\<rparr>))) = None \<and>
   elapse (demo_windows 90) 9500
     (snd (elapse (demo_windows 90) 1000 (copied_B\<lparr>clipboard := ''A''\<rparr>))) =
     (Inr (), snd (elapse (demo_windows 90) 1000 (copied_B\<lparr>clipboard := ''A''\<rparr>)))"
proof -
  have ta: "(1::int) \<le> 10" and tb: "(1::int) \<le> 1" and d: "(500::nat) < nat 10 * 1000"
    by simp_all
  note t = rearm_supersedes [OF ta tb copied_A_eq d copied_B_eq]
  have 1: "clear_timer copied_A = Some 10000" "last_copied_value copied_A = Some ''A''"
    "clear_timer copied_B = Some 1000" "last_copied_value copied_B = Some ''B''"
    using t by simp_all
  have D: "clipboard (snd (elapse (demo_windows 90) 1000 (copied_B\<lparr>clipboard := ''A''\<rparr>))) = ''A''"
    using t [THEN conjunct2, THEN conjunct2, THEN conjunct2, THEN conjunct2, THEN conjunct2,
      THEN conjunct2, THEN conjunct2, THEN conjunct1, THEN spec, THEN spec, of 1000 "''A''"]
    by simp
  have E: "clear_timer (snd (elapse (demo_windows 90) 1000 (copied_B\<lparr>clipboard := ''A''\<rparr>))) = None \<and>
   elapse (demo_windows 90) 9500
     (snd (elapse (demo_windows 90) 1000 (copied_B\<lparr>clipboard := ''A''\<rparr>))) =
     (Inr (), snd (elapse (demo_windows 90) 1000 (copied_B\<lparr>clipboard := ''A''\<rparr>)))"
    using t [THEN conjunct2, THEN conjunct2, THEN conjunct2, THEN conjunct2, THEN conjunct2,
      THEN conjunct2, THEN conjunct2, THEN conjunct2, THEN spec, THEN spec, THEN spec,
      of 1000 "''A''" 9500]
    by simp
  show ?thesis using copied_A_eq 1 D E by simp
qed

section \<open>The credential store\<close>

lemma demo_encrypt_windows:
  "dpapi_encrypt (demo_windows 90) ''P@ss1'' =
     (Inr ''WgoaKSlr'', [CryptProtectData_call [80, 64, 115, 115, 49] 1])"
  by code_simp

lemma demo_decrypt_windows:
  "dpapi_decrypt (demo_windows 90) (JStr ''WgoaKSlr'') =
     (Inr (Some ''P@ss1''), [CryptUnprotectData_call [90, 10, 26, 41, 41, 107] 0])"
  by code_simp

lemma demo_decrypt_foreign:
  "dpapi_decrypt (demo_windows 60) (JStr ''WgoaKSlr'') =
     (Inr None, [CryptUnprotectData_call [90, 10, 26, 41, 41, 107] 0])"
  by code_simp

lemma demo_decrypt_tampered:
  "dpapi_decrypt (demo_windows 90) (JStr ''Wgoa*SlrX'') = (Inr None, [])"
  by code_simp

lemma demo_encrypt_posix: "dpapi_encrypt demo_posix ''P@ss1'' = (Inr ''UEBzczE='', [])"
  by code_simp

lemma demo_decrypt_posix: "dpapi_decrypt demo_posix (JStr ''UEBzczE='') = (Inr (Some ''P@ss1''), [])"
  by code_simp

lemma get_v2_cached: "truthy (in_memory s) \<Longrightarrow> get_v2 P s = (Inr (in_memory s), s)"
  by (simp add: get_v2_def py_defs)

lemma returns_crypt32_decrypt: "returns (crypt32 (dpapi_decrypt P v))"
  by (simp add: returns_def crypt32_def dpapi_decrypt_def split: json.splits option.splits)


lemma keeps_crypt32: "(\<And>s x. f (s\<lparr>crypt32_calls := x\<rparr>) = f s) \<Longrightarrow> keeps f (crypt32 r)"
  by (simp add: keeps_def crypt32_def)




lemma dpapi_decrypt_returns: "\<exists>r. fst (dpapi_decrypt P v) = Inr r"
  by (simp add: dpapi_decrypt_def split: json.splits option.splits)

lemma get_v2_uncached:
  assumes "\<not> truthy (in_memory s)"
  shows "get_v2 P s =
    (if take 1 (faults s) = [True] then (Inr None, s\<lparr>faults := tl (faults s)\<rparr>)
     else case cred_file s of
        Some (Doc (JDict kvs)) \<Rightarrow>
          (case map_of kvs ''dpapi'' of
             Some v \<Rightarrow>
               if truthy_json v
               then (case fst (dpapi_decrypt P v) of
                       Inr (Some pw) \<Rightarrow>
                         if pw \<noteq> []
                         then (Inr (Some pw),
                               s\<lparr>faults := tl (faults s),
                                 crypt32_calls := crypt32_calls s @ snd (dpapi_decrypt P v),
                                 in_memory := Some pw\<rparr>)
                         else (Inr None,
                               s\<lparr>faults := tl (faults s),
                                 crypt32_calls := crypt32_calls s @ snd (dpapi_decrypt P v)\<rparr>)
                     | _ \<Rightarrow>
                         (Inr None,
                          s\<lparr>faults := tl (faults s),
                            crypt32_calls := crypt32_calls s @ snd (dpapi_decrypt P v)\<rparr>))
               else (Inr None, s\<lparr>faults := tl (faults s)\<rparr>)
           | None \<Rightarrow> (Inr None, s\<lparr>faults := tl (faults s)\<rparr>))
      | _ \<Rightarrow> (Inr None, s\<lparr>faults := tl (faults s)\<rparr>))"
proof (cases "take 1 (faults s) = [True]")
  case True
  then show ?thesis using assms
    by (simp add: get_v2_def read_cred_file_def fallible_run py_defs)
next
  case False
  show ?thesis
  proof (cases "cred_file s")
    case None
    then show ?thesis using assms False
      by (simp add: get_v2_def read_cred_file_def fallible_run py_defs)
  next
    case (Some body)
    show ?thesis
    proof (cases body)
      case Garbage
      then show ?thesis using assms False Some
        by (simp add: get_v2_def read_cred_file_def fallible_run py_defs)
    next
      case (Doc j)
      show ?thesis
      proof (cases "\<exists>kvs. j = JDict kvs")
        case no: False
        then show ?thesis using assms False Some Doc
          by (cases j) (simp_all add: get_v2_def read_cred_file_def dict_get_def fallible_run py_defs)
      next
        case True
        then obtain kvs where j: "j = JDict kvs" by blast
        show ?thesis
        proof (cases "map_of kvs ''dpapi''")
          case None
          then show ?thesis using assms False Some Doc j
            by (simp add: get_v2_def read_cred_file_def dict_get_def fallible_run py_defs
                truthy_json_def)
        next
          case v: (Some v)
          show ?thesis
          proof (cases "truthy_json v")
            case nt: False
            then show ?thesis using assms \<open>take 1 (faults s) \<noteq> [True]\<close> Some Doc j v
              by (simp add: get_v2_def read_cred_file_def dict_get_def fallible_run py_defs
                  truthy_json_def)
          next
            case tv: True
            obtain r where r: "fst (dpapi_decrypt P v) = Inr r"
              using dpapi_decrypt_returns by blast
            show ?thesis using assms \<open>take 1 (faults s) \<noteq> [True]\<close> Some Doc j v tv r
              by (cases r)
                 (simp_all add: get_v2_def read_cred_file_def dict_get_def fallible_run py_defs
                  crypt32_def truthy_def)
          qed
        qed
      qed
    qed
  qed
qed

text \<open>
  C4. \<^verbatim>\<open>PasswordStore.get\<close> of \<^verbatim>\<open>app_V2.py\<close> never raises, whatever the credential file
  is (absent, unreadable, not JSON, not a dictionary, without a usable \<^verbatim>\<open>"dpapi"\<close> entry,
  text that is not base64, data that this logon session cannot unprotect, bytes that are
  not UTF-8). A cached password is returned as it is and nothing changes. Otherwise a
  password is returned exactly when the file can be read, holds a dictionary whose
  \<^verbatim>\<open>"dpapi"\<close> entry \<^verbatim>\<open>dpapi_decrypt\<close> turns into a non-empty string, and that string is then
  cached; in every other case the result is \<^verbatim>\<open>None\<close> and the cache is as before. The file is
  never changed, and \<^verbatim>\<open>dpapi_decrypt\<close> itself never raises.
\<close>

theorem get_never_raises:
  assumes "get_v2 P s = (r, s')"
  shows "(\<exists>v. r = Inr v) \<and>
         (truthy (in_memory s) \<longrightarrow> r = Inr (in_memory s) \<and> s' = s) \<and>
         (r = Inr None \<longrightarrow> in_memory s' = in_memory s) \<and>
         (\<forall>pw. r = Inr (Some pw) \<longrightarrow> pw \<noteq> [] \<and> in_memory s' = Some pw) \<and>
         (\<not> truthy (in_memory s) \<longrightarrow>
            (\<forall>pw. r = Inr (Some pw) \<longleftrightarrow>
               take 1 (faults s) \<noteq> [True] \<and> pw \<noteq> [] \<and>
               (\<exists>kvs v. cred_file s = Some (Doc (JDict kvs)) \<and>
                        map_of kvs ''dpapi'' = Some v \<and> truthy_json v \<and>
                        fst (dpapi_decrypt P v) = Inr (Some pw)))) \<and>
         cred_file s' = cred_file s \<and>
         (\<forall>v. \<exists>x. fst (dpapi_decrypt P v) = Inr x)"
proof (cases "truthy (in_memory s)")
  case True
  then show ?thesis
    using assms get_v2_cached [OF True, of P] dpapi_decrypt_returns
    by (auto simp: truthy_def split: option.splits)
next
  case False
  show ?thesis
    using assms False dpapi_decrypt_returns unfolding get_v2_uncached [OF False]
    by (auto split: option.splits file_body.splits json.splits sum.splits if_splits)
qed


lemma get_v2_demo:
  "fst (get_v2 (demo_windows 90) remembered_demo) = Inr (Some ''P@ss1'')"
  "fst (get_v2 (demo_windows 90) tampered_demo) = Inr None"
  "fst (get_v2 (demo_windows 60) remembered_demo) = Inr None"
  "fst (get_v2 (demo_windows 90) startup) = Inr None"
  "fst (get_v2 (demo_windows 90) (remembered_demo\<lparr>faults := [True]\<rparr>)) = Inr None"
  by (simp_all add: get_v2_uncached remembered_demo_def tampered_demo_def startup_def
      cred_record_def truthy_def truthy_json_def demo_decrypt_windows demo_decrypt_foreign
      demo_decrypt_tampered)

theorem get_never_raises_witness:
  "fst (get_v2 (demo_windows 90) remembered_demo) = Inr (Some ''P@ss1'') \<and>
   in_memory (snd (get_v2 (demo_windows 90) remembered_demo)) = Some ''P@ss1'' \<and>
   fst (get_v2 (demo_windows 90) tampered_demo) = Inr None \<and>
   in_memory (snd (get_v2 (demo_windows 90) tampered_demo)) = None \<and>
   fst (get_v2 (demo_windows 60) remembered_demo) = Inr None \<and>
   in_memory (snd (get_v2 (demo_windows 60) remembered_demo)) = None \<and>
   fst (get_v2 (demo_windows 90) startup) = Inr None \<and>
   in_memory (snd (get_v2 (demo_windows 90) startup)) = None \<and>
   fst (get_v2 (demo_windows 90) (remembered_demo\<lparr>faults := [True]\<rparr>)) = Inr None \<and>
   in_memory (snd (get_v2 (demo_windows 90) (remembered_demo\<lparr>faults := [True]\<rparr>))) = None \<and>
   truthy (in_memory (startup\<lparr>in_memory := Some ''P@ss1''\<rparr>)) \<and>
   get_v2 (demo_windows 90) (startup\<lparr>in_memory := Some ''P@ss1''\<rparr>) =
     (Inr (Some ''P@ss1''), startup\<lparr>in_memory := Some ''P@ss1''\<rparr>)"
proof -
  note get = get_never_raises [OF surjective_pairing]
  note none = get [THEN conjunct2, THEN conjunct2, THEN conjunct1, THEN mp]
  note some = get [THEN conjunct2, THEN conjunct2, THEN conjunct2, THEN conjunct1, THEN spec,
    THEN mp, THEN conjunct2]
  note hit = get [THEN conjunct2, THEN conjunct1, THEN mp]
  have empty: "in_memory remembered_demo = None" "in_memory tampered_demo = None"
    "in_memory startup = None" "in_memory (remembered_demo\<lparr>faults := [True]\<rparr>) = None"
    by (simp_all add: remembered_demo_def tampered_demo_def startup_def)
  have cached: "truthy (in_memory (startup\<lparr>in_memory := Some ''P@ss1''\<rparr>))"
    by (simp add: truthy_def)
  have 6: "get_v2 (demo_windows 90) (startup\<lparr>in_memory := Some ''P@ss1''\<rparr>) =
     (Inr (Some ''P@ss1''), startup\<lparr>in_memory := Some ''P@ss1''\<rparr>)"
    using hit [OF cached, of "demo_windows 90"]
    by (simp add: prod_eq_iff)
  show ?thesis
    using get_v2_demo some [OF get_v2_demo(1)] none [OF get_v2_demo(2)] none [OF get_v2_demo(3)]
      none [OF get_v2_demo(4)] none [OF get_v2_demo(5)] empty cached 6
    by simp
qed


lemma keeps_write_cred_file:
  assumes "\<And>s x. f (s\<lparr>faults := x\<rparr>) = f s" and "\<And>s x. f (s\<lparr>cred_file := x\<rparr>) = f s"
  shows "keeps f (write_cred_file j)"
  unfolding write_cred_file_def by (auto intro!: keeps_intros simp: assms)

lemma returns_set_v2: "returns (set_v2 P pw rem)"
  unfolding set_v2_def by (auto intro!: returns_intros)

lemma set_v2_caches:
  assumes "set_v2 P pw rem s = (r, s')"
  shows "r = Inr () \<and> in_memory s' = Some pw"
proof -
  let ?K = "if rem
     then py_try
            (py_bind ensure_dir (\<lambda>u.
             py_bind (crypt32 (dpapi_encrypt P pw)) (\<lambda>enc. write_cred_file (cred_record enc))))
            (py_return ())
     else py_return ()"
  have k: "keeps in_memory ?K"
    unfolding ensure_dir_def
    by (auto intro!: keeps_intros keeps_crypt32 keeps_write_cred_file)
  have run: "?K (s\<lparr>in_memory := Some pw\<rparr>) = (r, s')"
    using assms by (simp add: set_v2_def py_bind_def py_modify_def)
  have "in_memory s' = Some pw"
    using keepsD [OF k run] by simp
  moreover have "r = Inr ()"
    using returnsD [OF returns_set_v2, of P pw rem s] assms by auto
  ultimately show ?thesis by simp
qed







lemma get_v1_cached: "truthy (in_memory s) \<Longrightarrow> get_v1 P s = (Inr (in_memory s), s)"
  by (simp add: get_v1_def py_defs)

lemma returns_set_v1: "returns (set_v1 P pw rem)"
  unfolding set_v1_def by (auto intro!: returns_intros)

lemma set_v1_caches:
  assumes "set_v1 P pw rem s = (r, s')"
  shows "r = Inr () \<and> in_memory s' = Some pw"
proof -
  let ?K = "if rem \<and> keyring_present P
     then py_try (keyring_set_password pw) (py_return ())
     else py_return ()"
  have k: "keeps in_memory ?K"
    unfolding keyring_set_password_def by (auto intro!: keeps_intros)
  have run: "?K (s\<lparr>in_memory := Some pw\<rparr>) = (r, s')"
    using assms by (simp add: set_v1_def py_bind_def py_modify_def)
  have "in_memory s' = Some pw"
    using keepsD [OF k run] by simp
  moreover have "r = Inr ()"
    using returnsD [OF returns_set_v1, of P pw rem s] assms by auto
  ultimately show ?thesis by simp
qed


lemma get_v1_uncached:
  assumes "\<not> truthy (in_memory s)"
  shows "get_v1 P s =
    (if \<not> keyring_present P then (Inr None, s)
     else if take 1 (faults s) = [True] then (Inr None, s\<lparr>faults := tl (faults s)\<rparr>)
     else if truthy (keyring_entry s)
          then (Inr (keyring_entry s),
                s\<lparr>faults := tl (faults s), in_memory := keyring_entry s\<rparr>)
          else (Inr None, s\<lparr>faults := tl (faults s)\<rparr>))"
  using assms
  by (simp add: get_v1_def keyring_get_password_def fallible_run py_defs)


text \<open>
  C8. \<^verbatim>\<open>PasswordStore.set\<close> (both files) puts the password in \<^verbatim>\<open>_in_memory\<close> first and
  never raises: whatever fails while the password is encrypted or written (or stored in
  the keyring), the call returns and the cache holds the password. The password is then
  what \<^verbatim>\<open>get\<close> returns, without touching anything, in that state and in every later
  state whose cache still holds it. The passwords are those the program sets: each of the
  four calls of \<^verbatim>\<open>store.set\<close> (in \<^verbatim>\<open>change_password\<close> and \<^verbatim>\<open>copy_password\<close> of either
  file) comes after \<^verbatim>\<open>if not pw: ... return\<close>, so \<open>pw\<close> is not empty there.
\<close>

theorem set_keeps_secret_in_memory:
  "(\<exists>s'. set_v2 P pw rem s = (Inr (), s') \<and> in_memory s' = Some pw \<and>
          (pw \<noteq> [] \<longrightarrow> get_v2 P s' = (Inr (Some pw), s'))) \<and>
   (\<exists>s'. set_v1 P pw rem s = (Inr (), s') \<and> in_memory s' = Some pw \<and>
          (pw \<noteq> [] \<longrightarrow> get_v1 P s' = (Inr (Some pw), s'))) \<and>
   (\<forall>t. pw \<noteq> [] \<and> in_memory t = Some pw \<longrightarrow>
          get_v2 P t = (Inr (Some pw), t) \<and> get_v1 P t = (Inr (Some pw), t))"
proof -
  have later: "get_v2 P t = (Inr (Some pw), t) \<and> get_v1 P t = (Inr (Some pw), t)"
    if "pw \<noteq> []" "in_memory t = Some pw" for t
    using that get_v2_cached [of t P] get_v1_cached [of t P] by (simp add: truthy_def)
  obtain r2 s2 where v2: "set_v2 P pw rem s = (r2, s2)" by (cases "set_v2 P pw rem s")
  obtain r1 s1 where v1: "set_v1 P pw rem s = (r1, s1)" by (cases "set_v1 P pw rem s")
  have a: "set_v2 P pw rem s = (Inr (), s2)" "in_memory s2 = Some pw"
    using set_v2_caches [OF v2] v2 by simp_all
  have b: "set_v1 P pw rem s = (Inr (), s1)" "in_memory s1 = Some pw"
    using set_v1_caches [OF v1] v1 by simp_all
  have A: "\<exists>s'. set_v2 P pw rem s = (Inr (), s') \<and> in_memory s' = Some pw \<and>
          (pw \<noteq> [] \<longrightarrow> get_v2 P s' = (Inr (Some pw), s'))"
    using a later [of s2] by blast
  have B: "\<exists>s'. set_v1 P pw rem s = (Inr (), s') \<and> in_memory s' = Some pw \<and>
          (pw \<noteq> [] \<longrightarrow> get_v1 P s' = (Inr (Some pw), s'))"
    using b later [of s1] by blast
  have C: "\<forall>t. pw \<noteq> [] \<and> in_memory t = Some pw \<longrightarrow>
          get_v2 P t = (Inr (Some pw), t) \<and> get_v1 P t = (Inr (Some pw), t)"
    using later by blast
  show ?thesis by (intro conjI A B C)
qed


theorem set_keeps_secret_in_memory_witness:
  "fst (set_v2 (demo_windows 90) ''P@ss1'' True (startup\<lparr>faults := [False, True]\<rparr>)) = Inr () \<and>
   in_memory (snd (set_v2 (demo_windows 90) ''P@ss1'' True (startup\<lparr>faults := [False, True]\<rparr>)))
     = Some ''P@ss1'' \<and>
   get_v2 (demo_windows 90)
     (snd (set_v2 (demo_windows 90) ''P@ss1'' True (startup\<lparr>faults := [False, True]\<rparr>))) =
     (Inr (Some ''P@ss1''),
      snd (set_v2 (demo_windows 90) ''P@ss1'' True (startup\<lparr>faults := [False, True]\<rparr>))) \<and>
   fst (set_v2 ((demo_windows 90)\<lparr>CryptProtectData := (\<lambda>raw flags. None)\<rparr>) ''P@ss1'' True
          startup) = Inr () \<and>
   get_v2 ((demo_windows 90)\<lparr>CryptProtectData := (\<lambda>raw flags. None)\<rparr>)
     (snd (set_v2 ((demo_windows 90)\<lparr>CryptProtectData := (\<lambda>raw flags. None)\<rparr>) ''P@ss1'' True
          startup)) =
     (Inr (Some ''P@ss1''),
      snd (set_v2 ((demo_windows 90)\<lparr>CryptProtectData := (\<lambda>raw flags. None)\<rparr>) ''P@ss1'' True
          startup)) \<and>
   fst (set_v1 demo_posix ''P@ss1'' True (startup\<lparr>faults := [True]\<rparr>)) = Inr () \<and>
   get_v1 demo_posix (snd (set_v1 demo_posix ''P@ss1'' True (startup\<lparr>faults := [True]\<rparr>))) =
     (Inr (Some ''P@ss1''),
      snd (set_v1 demo_posix ''P@ss1'' True (startup\<lparr>faults := [True]\<rparr>)))"
proof -
  have ne: "''P@ss1'' \<noteq> []" by simp
  obtain a where a: "set_v2 (demo_windows 90) ''P@ss1'' True (startup\<lparr>faults := [False, True]\<rparr>)
      = (Inr (), a)" "in_memory a = Some ''P@ss1''"
    "get_v2 (demo_windows 90) a = (Inr (Some ''P@ss1''), a)"
    using set_keeps_secret_in_memory [of "demo_windows 90" "''P@ss1''" True
        "startup\<lparr>faults := [False, True]\<rparr>"] ne
    by blast
  obtain b where b: "set_v2 ((demo_windows 90)\<lparr>CryptProtectData := (\<lambda>raw flags. None)\<rparr>)
      ''P@ss1'' True startup = (Inr (), b)"
    "get_v2 ((demo_windows 90)\<lparr>CryptProtectData := (\<lambda>raw flags. None)\<rparr>) b =
       (Inr (Some ''P@ss1''), b)"
    using set_keeps_secret_in_memory [of "(demo_windows 90)\<lparr>CryptProtectData := (\<lambda>raw flags. None)\<rparr>"
        "''P@ss1''" True startup] ne
    by blast
  obtain c where c: "set_v1 demo_posix ''P@ss1'' True (startup\<lparr>faults := [True]\<rparr>) = (Inr (), c)"
    "get_v1 demo_posix c = (Inr (Some ''P@ss1''), c)"
    using set_keeps_secret_in_memory [of demo_posix "''P@ss1''" True
        "startup\<lparr>faults := [True]\<rparr>"] ne
    by blast
  show ?thesis using a b c by simp
qed





section \<open>Changing the password\<close>



lemma refresh_status_v2_cached:
  assumes "truthy (in_memory s)"
  shows "refresh_status_v2 P s = (Inr (), s\<lparr>status_lbl := StatusStored\<rparr>)"
  using assms by (auto simp: refresh_status_v2_def get_v2_cached py_defs truthy_def)

lemma refresh_status_v1_cached:
  assumes "truthy (in_memory s)"
  shows "refresh_status_v1 P s =
           (Inr (), s\<lparr>status_lbl := (if keyring_present P then StatusStored
                                       else StatusStoredSessionOnly)\<rparr>)"
  using assms by (auto simp: refresh_status_v1_def get_v1_cached py_defs truthy_def)





























section \<open>Setting a password that is not to be remembered\<close>

lemma set_v2_session_only: "set_v2 P pw False s = (Inr (), s\<lparr>in_memory := Some pw\<rparr>)"
  by (simp add: set_v2_def py_defs)

lemma change_password_v2_session_only:
  assumes "pw \<noteq> []"
  shows "change_password_v2 P (Accepted pw False) s =
           (Inr (), s\<lparr>in_memory := Some pw, status_lbl := StatusStored,
                      ui_events := ui_events s @ [TrayMessage ''Saved'']\<rparr>)"
proof -
  have t: "truthy (in_memory (s\<lparr>in_memory := Some pw\<rparr>))"
    using assms by (simp add: truthy_def)
  show ?thesis
    using assms
    by (simp add: change_password_v2_def set_v2_session_only tray_showMessage_def
        refresh_status_v2_cached [OF t] py_bind_def py_modify_def py_return_def)
qed

text \<open>
  \<^verbatim>\<open>app.py\<close> forgets a remembered password when a new one is set without "remember":
  \<^verbatim>\<open>change_password\<close> deletes the keyring entry before \<^verbatim>\<open>store.set\<close>.
\<close>

lemma change_password_v1_forgets:
  assumes "keyring_present P" and "True \<notin> set (faults s)" and "pw \<noteq> []"
      and "keyring_entry s = Some old"
  shows "\<exists>s'. change_password_v1 P (Accepted pw False) s = (Inr (), s') \<and>
              keyring_entry s' = None \<and>
              fst (get_v1 P (s'\<lparr>in_memory := None\<rparr>)) = Inr None"
proof -
  let ?s1 = "s\<lparr>faults := tl (faults s), keyring_entry := None, in_memory := Some pw\<rparr>"
  have t: "truthy (in_memory ?s1)" using assms(3) by (simp add: truthy_def)
  have run: "change_password_v1 P (Accepted pw False) s =
          (Inr (), ?s1\<lparr>status_lbl := StatusStored,
                      ui_events := ui_events s @ [TrayMessage ''Saved'']\<rparr>)"
    using assms
    by (simp add: change_password_v1_def clear_device_store_v1_def keyring_delete_password_def
        set_v1_def tray_showMessage_def fallible_quiet refresh_status_v1_cached [OF t] py_defs)
  have "fst (get_v1 P (?s1\<lparr>status_lbl := StatusStored,
                      ui_events := ui_events s @ [TrayMessage ''Saved''],
                      in_memory := None\<rparr>)) = Inr None"
    by (simp add: get_v1_uncached truthy_def)
  with run show ?thesis by simp
qed

text \<open>
  C3. In \<^verbatim>\<open>app_V2.py\<close> neither \<^verbatim>\<open>PasswordStore.set\<close> nor \<^verbatim>\<open>change_password\<close> deletes the
  credential file when the new password is not to be remembered: with the record of
  \<^verbatim>\<open>P@ss1\<close> on disk, setting \<^verbatim>\<open>new\<close> without "remember" leaves the file as it is, and a
  new store then gets \<^verbatim>\<open>P@ss1\<close> back, not nothing.
\<close>

theorem forgotten_secret_survives_v2:
  "cred_file remembered_demo = Some (Doc (cred_record ''WgoaKSlr'')) \<and>
   fst (change_password_v2 (demo_windows 90) (Accepted ''new'' False) remembered_demo) = Inr () \<and>
   cred_file (snd (change_password_v2 (demo_windows 90) (Accepted ''new'' False) remembered_demo)) =
     Some (Doc (cred_record ''WgoaKSlr'')) \<and>
   fst (get_v2 (demo_windows 90)
         ((snd (change_password_v2 (demo_windows 90) (Accepted ''new'' False) remembered_demo))
            \<lparr>in_memory := None\<rparr>)) = Inr (Some ''P@ss1'') \<and>
   cred_file (snd (set_v2 (demo_windows 90) ''new'' False remembered_demo)) =
     Some (Doc (cred_record ''WgoaKSlr'')) \<and>
   fst (get_v2 (demo_windows 90)
         ((snd (set_v2 (demo_windows 90) ''new'' False remembered_demo))\<lparr>in_memory := None\<rparr>)) =
     Inr (Some ''P@ss1'')"
  by (simp add: change_password_v2_session_only set_v2_session_only get_v2_uncached
      remembered_demo_def startup_def cred_record_def truthy_def truthy_json_def
      demo_decrypt_windows)

section \<open>The flags passed to DPAPI\<close>

lemma dpapi_calls_flags:
  "set (snd (dpapi_encrypt P pw)) \<subseteq> {c. \<exists>raw. c = CryptProtectData_call raw CRYPTPROTECT_UI_FORBIDDEN}"
  "set (snd (dpapi_decrypt P v)) \<subseteq> {c. \<exists>enc. c = CryptUnprotectData_call enc 0}"
  by (auto simp: dpapi_encrypt_def dpapi_decrypt_def split: option.splits json.splits if_splits)

text \<open>
  C10. \<^verbatim>\<open>dpapi_encrypt\<close> passes \<^verbatim>\<open>CRYPTPROTECT_UI_FORBIDDEN\<close> to \<^verbatim>\<open>CryptProtectData\<close>, but
  \<^verbatim>\<open>dpapi_decrypt\<close> passes \<^verbatim>\<open>0\<close> to \<^verbatim>\<open>CryptUnprotectData\<close>: the flag that forbids a prompt
  is not set on the way back.
\<close>

theorem dpapi_decrypt_omits_ui_flag:
  "snd (dpapi_encrypt (demo_windows 90) ''P@ss1'') =
     [CryptProtectData_call [80, 64, 115, 115, 49] CRYPTPROTECT_UI_FORBIDDEN] \<and>
   snd (dpapi_decrypt (demo_windows 90) (JStr ''WgoaKSlr'')) =
     [CryptUnprotectData_call [90, 10, 26, 41, 41, 107] 0] \<and>
   (0 :: 32 word) AND CRYPTPROTECT_UI_FORBIDDEN = 0 \<and>
   CRYPTPROTECT_UI_FORBIDDEN AND CRYPTPROTECT_UI_FORBIDDEN \<noteq> 0"
  by (simp add: demo_encrypt_windows demo_decrypt_windows CRYPTPROTECT_UI_FORBIDDEN_def)

end
